theory Spec2Isabelle
  imports Complex_Main "HOL-Library.AList"
begin

section \<open>Errors, driver calls and the effect monad\<close>

text \<open>
  Every \<^verbatim>\<open>throw new Error(...)\<close> of the sources is one constructor of \<open>error\<close>, named
  after its message.  An error raised by a vendor driver (redis, pg, better-sqlite3, the
  Qdrant client, fetch) is \<open>DriverError\<close> with the driver's message.
\<close>

datatype EmbeddingProviderType = Jina | OpenAI

datatype error =
    DriverError string
  | SqliteDimensionNotPositive
  | SqliteNotConnected
  | SqliteDimensionMismatch int nat
  | SqliteUnsupportedVectorType string
  | SqliteUnsupportedMetric string
  | SqliteMetricMismatch string string
  | PgNotConnected
  | RedisNotConnected
  | QdrantNotConnected
  | NoAdaptersConfigured
  | RedisAdapterNotConfigured
  | PgVectorAdapterNotConfigured
  | SqliteAdapterNotConfigured
  | QdrantAdapterNotConfigured
  | JsTypeError
  | ApiKeyRequired EmbeddingProviderType
  | ModelRequired EmbeddingProviderType
  | EmbedEmptyInput
  | EmbeddingsFailed EmbeddingProviderType int string
  | UnexpectedResponseShape EmbeddingProviderType
  | EmbeddingDimensionMismatch EmbeddingProviderType int "nat option"
  | EmbeddingsTimedOut EmbeddingProviderType int
  | NoEmbeddingProviderConfigured
  | DefaultProviderNotConfigured EmbeddingProviderType
  | CannotSetDefault EmbeddingProviderType
  | NoDefaultProvider
  | ProviderNotConfigured EmbeddingProviderType

text \<open>
  Numbers are JavaScript doubles in the sources.  Dimensions, ids, limits and counts are
  modelled as \<open>int\<close>, vector components as \<open>real\<close>; rounding to 32-bit floats in the
  SQLite blob is not modelled.  A metadata object is an opaque JSON value.
\<close>

type_synonym json = string

datatype sq_param = PText string | PInt int | PBlob "real list" | PNull | PInit string int string

text \<open>The SQL texts the SQLite adapter builds, with their interpolated parts.\<close>

datatype sqlite_sql =
    SqCreateTable string
  | SqVectorInit
  | SqQuantizeCleanup
  | SqDropTable string
  | SqInsert string string
  | SqUpsert string string
  | SqDelete string
  | SqSearch string string

text \<open>
  The SQL texts the PgVector adapter builds.  \<open>pg_operator\<close> is one of pgvector's
  distance operators: \<^verbatim>\<open><->\<close>, \<^verbatim>\<open><=>\<close> and \<^verbatim>\<open><#>\<close>.  A search statement carries the
  table, the expression selected \<^verbatim>\<open>as distance\<close> and the operator of its
  \<^verbatim>\<open>ORDER BY embedding ... $1::vector\<close> clause.
\<close>

datatype pg_operator = L2_op | Cosine_op | Inner_op

datatype pg_distance_expr = One_minus pg_operator | Plain pg_operator

datatype pg_sql =
    PgSelect1
  | PgCreateExtension
  | PgCreateTable string int
  | PgInsert string
  | PgSearch string pg_distance_expr pg_operator
  | PgDelete string
  | PgDropTable string

datatype pg_param = PgVector "real list" | PgJson string | PgNull | PgInt int

datatype pg_connection = ConnectionString string
  | ConnectionFields string int string "string option" string "bool option"

datatype redis_url = GivenUrl string | BuiltUrl string string int "int option"

datatype point_id = NumId int | StrId string

record QdrantPointInput =
  pt_id :: point_id
  pt_vector :: "real list"
  pt_payload :: "json option"

record QdrantClientParams =
  opt_url :: string
  opt_apiKey :: "string option"
  opt_timeout :: int
  opt_checkCompatibility :: bool

record qdrant_search_request =
  rq_vector :: "real list"
  rq_limit :: int
  rq_filter :: "json option"
  rq_score_threshold :: "real option"
  rq_with_payload :: bool

record QdrantSearchResult =
  sp_id :: point_id
  sp_score :: real
  sp_payload :: "json option"

text \<open>
  One call of a vendor driver, with the arguments the adapter passes.  The log of these
  calls is the only trace the adapters leave outside their own fields.
\<close>

datatype call =
    RedisConnect redis_url
  | RedisQuit
  | RedisGet string
  | RedisSetEx string int string
  | RedisSet string string
  | RedisDel string
  | RedisExists string
  | RedisKeys string
  | PgPoolConnect
  | PgQuery pg_sql "pg_param list"
  | PgRelease
  | PgPoolEnd
  | QdrantGetCollections
  | QdrantCreateCollection string int string
  | QdrantDeleteCollection string
  | QdrantUpsert string bool "QdrantPointInput list"
  | QdrantSearch string qdrant_search_request
  | SqliteOpen string
  | SqlitePragma string
  | SqliteResolveExtensionPath
  | SqliteLoadExtension string "string option"
  | SqliteExec sqlite_sql
  | SqlitePrepare sqlite_sql
  | SqliteGet sqlite_sql "(string \<times> sq_param) list"
  | SqliteRun sqlite_sql "(string \<times> sq_param) list"
  | SqliteAll sqlite_sql "(string \<times> sq_param) list"
  | SqliteClose

record sqlite_run_result =
  changes :: int
  lastInsertRowid :: int

record sqlite_row =
  row_id :: int
  row_embedding_blob :: "real list"
  row_metadata :: "string option"
  row_distance :: real

text \<open>
  A row of a PgVector search answer.  The driver returns \<^verbatim>\<open>embedding::text\<close> and the
  distance as text; \<^verbatim>\<open>parseVector\<close> and \<^verbatim>\<open>parseFloat\<close> read them back, and the model
  keeps the numbers they denote.
\<close>

record pg_row =
  pg_id :: int
  pg_embedding :: "real list"
  pg_metadata :: "json option"
  pg_distance :: real

text \<open>
  The drivers are outside the repository: their answers are parameters.  Each function
  receives the whole log, the call being answered last, and returns the driver's result or
  the message of the error it throws.  \<open>json_parse\<close> is \<^verbatim>\<open>JSON.parse\<close> (\<open>None\<close> when it
  throws), \<open>json_stringify\<close> is \<^verbatim>\<open>JSON.stringify\<close>, \<open>process_env\<close> is \<^verbatim>\<open>process.env\<close>.
\<close>

record driver =
  reply_void :: "call list \<Rightarrow> string option"
  reply_path :: "call list \<Rightarrow> string + string"
  reply_run :: "call list \<Rightarrow> string + sqlite_run_result"
  reply_rows :: "call list \<Rightarrow> string + sqlite_row list"
  reply_text :: "call list \<Rightarrow> string + string option"
  reply_count :: "call list \<Rightarrow> string + int"
  reply_names :: "call list \<Rightarrow> string + string list"
  reply_ids :: "call list \<Rightarrow> string + int list"
  reply_rowCount :: "call list \<Rightarrow> string + int option"
  reply_pg_rows :: "call list \<Rightarrow> string + pg_row list"
  reply_collections :: "call list \<Rightarrow> string + string list option"
  reply_points :: "call list \<Rightarrow> string + QdrantSearchResult list"
  json_parse :: "string \<Rightarrow> json option"
  json_stringify :: "json \<Rightarrow> string"
  process_env :: "string \<Rightarrow> string option"

text \<open>
  A method is a function from the state (the object's fields and the log) to a result,
  an error or a value, and the state it leaves.  A throw keeps the state reached so far.
\<close>

type_synonym ('s, 'a) prog = "'s \<Rightarrow> (error + 'a) \<times> 's"

definition ret :: "'a \<Rightarrow> ('s, 'a) prog" where
  "ret x = (\<lambda>s. (Inr x, s))"

definition throw :: "error \<Rightarrow> ('s, 'a) prog" where
  "throw e = (\<lambda>s. (Inl e, s))"

definition bnd :: "('s, 'a) prog \<Rightarrow> ('a \<Rightarrow> ('s, 'b) prog) \<Rightarrow> ('s, 'b) prog" where
  "bnd m f = (\<lambda>s. case m s of (Inl e, s') \<Rightarrow> (Inl e, s') | (Inr x, s') \<Rightarrow> f x s')"

definition lift :: "error + 'a \<Rightarrow> ('s, 'a) prog" where
  "lift r = (\<lambda>s. (r, s))"

text \<open>\<^verbatim>\<open>try { m } catch { }\<close>: the error is dropped, the effects stay.\<close>

definition ignoring :: "('s, 'a) prog \<Rightarrow> ('s, unit) prog" where
  "ignoring m = (\<lambda>s. case m s of (_, s') \<Rightarrow> (Inr (), s'))"

text \<open>\<^verbatim>\<open>try { m } finally { c }\<close> where \<open>c\<close> is a driver call that does not throw.\<close>

definition finally_call :: "('h \<times> call list, 'a) prog \<Rightarrow> call \<Rightarrow> ('h \<times> call list, 'a) prog" where
  "finally_call m c = (\<lambda>s. case m s of (r, (h, l)) \<Rightarrow> (r, (h, l @ [c])))"

definition the_object :: "('h \<times> call list, 'h) prog" where
  "the_object = (\<lambda>(h, l). (Inr h, (h, l)))"

definition assign :: "('h \<Rightarrow> 'h) \<Rightarrow> ('h \<times> call list, unit) prog" where
  "assign f = (\<lambda>(h, l). (Inr (), (f h, l)))"

definition call_void :: "driver \<Rightarrow> call \<Rightarrow> ('h \<times> call list, unit) prog" where
  "call_void env c = (\<lambda>(h, l).
     (case reply_void env (l @ [c]) of Some m \<Rightarrow> Inl (DriverError m) | None \<Rightarrow> Inr (),
      (h, l @ [c])))"

definition answer :: "string + 'a \<Rightarrow> error + 'a" where
  "answer r = (case r of Inl m \<Rightarrow> Inl (DriverError m) | Inr x \<Rightarrow> Inr x)"

definition call_for :: "(call list \<Rightarrow> string + 'a) \<Rightarrow> call \<Rightarrow> ('h \<times> call list, 'a) prog" where
  "call_for reply c = (\<lambda>(h, l). (answer (reply (l @ [c])), (h, l @ [c])))"

text \<open>A \<^verbatim>\<open>for ... of\<close> loop whose body may throw.\<close>

fun for_each :: "'a list \<Rightarrow> ('a \<Rightarrow> ('s, unit) prog) \<Rightarrow> ('s, unit) prog" where
  "for_each [] f = ret ()"
| "for_each (x # xs) f = bnd (f x) (\<lambda>_. for_each xs f)"

text \<open>\<^verbatim>\<open>"\"" + identifier.replace(/"/g, "\"\"") + "\""\<close>, in both SQL adapters.\<close>

definition escapeIdentifier :: "string \<Rightarrow> string" where
  "escapeIdentifier identifier =
     [CHR 0x22] @ concat (map (\<lambda>c. if c = CHR 0x22 then [c, c] else [c]) identifier) @ [CHR 0x22]"


section \<open>SqliteAdapter (sqlite.adapter.ts)\<close>

record SqliteExtensionConfig =
  ext_path :: string
  ext_entryPoint :: "string option"

record SqliteAdapterConfig =
  databasePath :: string
  vectorDimension :: int
  defaultTable :: "string option"
  cfg_distanceMetric :: "string option"
  cfg_vectorType :: "string option"
  pragmas :: "(string \<times> string) list option"
  extensions :: "SqliteExtensionConfig list option"

datatype BetterSqlite3Database = Database string

record SqliteAdapter =
  sq_database :: "BetterSqlite3Database option"
  sq_config :: SqliteAdapterConfig
  sq_vectorType :: string
  sq_distanceMetric :: string

record SqliteSearchResult =
  res_id :: int
  res_embedding :: "real list"
  res_metadata :: "json option"
  res_distance :: real

definition vectorColumnName :: string where
  "vectorColumnName = ''embedding''"

text \<open>\<^verbatim>\<open>!metric\<close> holds for \<^verbatim>\<open>undefined\<close> and for the empty string.\<close>

definition mapDistanceMetric :: "string option \<Rightarrow> error + string" where
  "mapDistanceMetric metric =
     (case metric of
        None \<Rightarrow> Inr ''cosine''
      | Some m \<Rightarrow>
          if m = [] then Inr ''cosine''
          else if m = ''inner_product'' then Inr ''dot''
          else if m = ''cosine'' \<or> m = ''l2'' \<or> m = ''dot'' then Inr m
          else Inl (SqliteUnsupportedMetric m))"

definition SqliteAdapter_new :: "SqliteAdapterConfig \<Rightarrow> error + SqliteAdapter" where
  "SqliteAdapter_new cfg =
     (if vectorDimension cfg \<le> 0 then Inl SqliteDimensionNotPositive
      else case mapDistanceMetric (cfg_distanceMetric cfg) of
             Inl e \<Rightarrow> Inl e
           | Inr m \<Rightarrow>
               Inr \<lparr> sq_database = None, sq_config = cfg,
                     sq_vectorType = (case cfg_vectorType cfg of Some t \<Rightarrow> t | None \<Rightarrow> ''FLOAT32''),
                     sq_distanceMetric = m \<rparr>)"

definition SqliteAdapter_isConnected :: "SqliteAdapter \<Rightarrow> bool" where
  "SqliteAdapter_isConnected a = (sq_database a \<noteq> None)"

definition SqliteAdapter_ensureConnected :: "(SqliteAdapter \<times> call list, unit) prog" where
  "SqliteAdapter_ensureConnected =
     bnd the_object (\<lambda>a. if sq_database a = None then throw SqliteNotConnected else ret ())"

definition ensureDimension :: "SqliteAdapter \<Rightarrow> real list \<Rightarrow> error + unit" where
  "ensureDimension a vector =
     (if int (length vector) \<noteq> vectorDimension (sq_config a)
      then Inl (SqliteDimensionMismatch (vectorDimension (sq_config a)) (length vector))
      else Inr ())"

definition wrapVectorFunction :: "SqliteAdapter \<Rightarrow> string \<Rightarrow> error + string" where
  "wrapVectorFunction a parameter =
     (if sq_vectorType a = ''FLOAT32'' then Inr (''vector_as_f32('' @ parameter @ '')'')
      else Inl (SqliteUnsupportedVectorType (sq_vectorType a)))"

definition serializeVector :: "SqliteAdapter \<Rightarrow> real list \<Rightarrow> error + real list" where
  "serializeVector a vector =
     (case ensureDimension a vector of
        Inl e \<Rightarrow> Inl e
      | Inr _ \<Rightarrow>
          if sq_vectorType a = ''FLOAT32'' then Inr vector
          else Inl (SqliteUnsupportedVectorType (sq_vectorType a)))"

definition deserializeVector :: "SqliteAdapter \<Rightarrow> real list \<Rightarrow> error + real list" where
  "deserializeVector a buffer =
     (if sq_vectorType a = ''FLOAT32'' then Inr buffer
      else Inl (SqliteUnsupportedVectorType (sq_vectorType a)))"

definition buildVectorInitParams :: "SqliteAdapter \<Rightarrow> sq_param" where
  "buildVectorInitParams a =
     PInit (sq_vectorType a) (vectorDimension (sq_config a)) (sq_distanceMetric a)"

definition parseMetadata :: "driver \<Rightarrow> string option \<Rightarrow> json option" where
  "parseMetadata env serialized =
     (case serialized of None \<Rightarrow> None | Some s \<Rightarrow> json_parse env s)"

definition assertDistanceMetric :: "SqliteAdapter \<Rightarrow> string \<Rightarrow> error + unit" where
  "assertDistanceMetric a metric =
     (case mapDistanceMetric (Some metric) of
        Inl e \<Rightarrow> Inl e
      | Inr normalized \<Rightarrow>
          if normalized \<noteq> sq_distanceMetric a
          then Inl (SqliteMetricMismatch (sq_distanceMetric a) normalized)
          else Inr ())"

definition stringify_metadata :: "driver \<Rightarrow> json option \<Rightarrow> sq_param" where
  "stringify_metadata env metadata =
     (case metadata of Some m \<Rightarrow> PText (json_stringify env m) | None \<Rightarrow> PNull)"

definition SqliteAdapter_createTable ::
  "driver \<Rightarrow> string \<Rightarrow> (SqliteAdapter \<times> call list, unit) prog" where
  "SqliteAdapter_createTable env tableName =
     bnd SqliteAdapter_ensureConnected (\<lambda>_.
     bnd (call_void env (SqliteExec (SqCreateTable (escapeIdentifier tableName)))) (\<lambda>_.
     bnd the_object (\<lambda>a.
     bnd (call_void env (SqlitePrepare SqVectorInit)) (\<lambda>_.
     call_void env (SqliteGet SqVectorInit
       [(''table'', PText tableName), (''column'', PText vectorColumnName),
        (''params'', buildVectorInitParams a)])))))"

definition SqliteAdapter_dropTable ::
  "driver \<Rightarrow> string \<Rightarrow> (SqliteAdapter \<times> call list, unit) prog" where
  "SqliteAdapter_dropTable env tableName =
     bnd SqliteAdapter_ensureConnected (\<lambda>_.
     bnd (ignoring
            (bnd (call_void env (SqlitePrepare SqQuantizeCleanup)) (\<lambda>_.
             call_void env (SqliteGet SqQuantizeCleanup
               [(''table'', PText tableName), (''column'', PText vectorColumnName)])))) (\<lambda>_.
     call_void env (SqliteExec (SqDropTable (escapeIdentifier tableName)))))"

definition SqliteAdapter_insertVector ::
  "driver \<Rightarrow> string \<Rightarrow> real list \<Rightarrow> json option \<Rightarrow> (SqliteAdapter \<times> call list, int) prog" where
  "SqliteAdapter_insertVector env tableName vector metadata =
     bnd SqliteAdapter_ensureConnected (\<lambda>_.
     bnd the_object (\<lambda>a.
     bnd (lift (wrapVectorFunction a ''@embedding'')) (\<lambda>w.
     bnd (call_void env (SqlitePrepare (SqInsert (escapeIdentifier tableName) w))) (\<lambda>_.
     bnd (lift (serializeVector a vector)) (\<lambda>blob.
     bnd (call_for (reply_run env) (SqliteRun (SqInsert (escapeIdentifier tableName) w)
            [(''embedding'', PBlob blob), (''metadata'', stringify_metadata env metadata)])) (\<lambda>r.
     ret (lastInsertRowid r)))))))"

definition SqliteAdapter_upsertVector ::
  "driver \<Rightarrow> string \<Rightarrow> int \<Rightarrow> real list \<Rightarrow> json option \<Rightarrow> (SqliteAdapter \<times> call list, unit) prog" where
  "SqliteAdapter_upsertVector env tableName ident vector metadata =
     bnd SqliteAdapter_ensureConnected (\<lambda>_.
     bnd the_object (\<lambda>a.
     bnd (lift (wrapVectorFunction a ''@embedding'')) (\<lambda>w.
     bnd (call_void env (SqlitePrepare (SqUpsert (escapeIdentifier tableName) w))) (\<lambda>_.
     bnd (lift (serializeVector a vector)) (\<lambda>blob.
     bnd (call_for (reply_run env) (SqliteRun (SqUpsert (escapeIdentifier tableName) w)
            [(''id'', PInt ident), (''embedding'', PBlob blob),
             (''metadata'', stringify_metadata env metadata)])) (\<lambda>_.
     ret ()))))))"

definition SqliteAdapter_deleteVector ::
  "driver \<Rightarrow> string \<Rightarrow> int \<Rightarrow> (SqliteAdapter \<times> call list, bool) prog" where
  "SqliteAdapter_deleteVector env tableName ident =
     bnd SqliteAdapter_ensureConnected (\<lambda>_.
     bnd (call_void env (SqlitePrepare (SqDelete (escapeIdentifier tableName)))) (\<lambda>_.
     bnd (call_for (reply_run env) (SqliteRun (SqDelete (escapeIdentifier tableName)) [(''id'', PInt ident)])) (\<lambda>r.
     ret (changes r > 0))))"

fun map_rows :: "('r \<Rightarrow> error + 'b) \<Rightarrow> 'r list \<Rightarrow> error + 'b list" where
  "map_rows f [] = Inr []"
| "map_rows f (r # rs) =
     (case f r of
        Inl e \<Rightarrow> Inl e
      | Inr x \<Rightarrow> (case map_rows f rs of Inl e \<Rightarrow> Inl e | Inr xs \<Rightarrow> Inr (x # xs)))"

definition sqlite_result_of_row :: "driver \<Rightarrow> SqliteAdapter \<Rightarrow> sqlite_row \<Rightarrow> error + SqliteSearchResult" where
  "sqlite_result_of_row env a row =
     (case deserializeVector a (row_embedding_blob row) of
        Inl e \<Rightarrow> Inl e
      | Inr v \<Rightarrow>
          Inr \<lparr> res_id = row_id row, res_embedding = v,
                res_metadata = parseMetadata env (row_metadata row),
                res_distance = row_distance row \<rparr>)"

text \<open>
  The optional arguments \<open>limit\<close> and \<open>metric\<close> are \<open>None\<close> when the caller leaves them
  out: the defaults are 10 and \<^verbatim>\<open>this.config.distanceMetric ?? "cosine"\<close>.
\<close>

definition SqliteAdapter_searchSimilar ::
  "driver \<Rightarrow> string \<Rightarrow> real list \<Rightarrow> int option \<Rightarrow> string option \<Rightarrow>
   (SqliteAdapter \<times> call list, SqliteSearchResult list) prog" where
  "SqliteAdapter_searchSimilar env tableName queryVector limit_arg metric_arg =
     bnd the_object (\<lambda>a0.
     let limit = (case limit_arg of Some n \<Rightarrow> n | None \<Rightarrow> 10);
         metric = (case metric_arg of Some m \<Rightarrow> m
                   | None \<Rightarrow> (case cfg_distanceMetric (sq_config a0) of Some m \<Rightarrow> m | None \<Rightarrow> ''cosine''))
     in
     bnd SqliteAdapter_ensureConnected (\<lambda>_.
     bnd the_object (\<lambda>a.
     bnd (lift (ensureDimension a queryVector)) (\<lambda>_.
     bnd (lift (assertDistanceMetric a metric)) (\<lambda>_.
     bnd (lift (wrapVectorFunction a ''@queryVector'')) (\<lambda>w.
     bnd (call_void env (SqlitePrepare (SqSearch (escapeIdentifier tableName) w))) (\<lambda>_.
     bnd (lift (serializeVector a queryVector)) (\<lambda>blob.
     bnd (call_for (reply_rows env) (SqliteAll (SqSearch (escapeIdentifier tableName) w)
            [(''table'', PText tableName), (''column'', PText vectorColumnName),
             (''queryVector'', PBlob blob), (''limit'', PInt limit)])) (\<lambda>rows.
     lift (map_rows (sqlite_result_of_row env a) rows))))))))))"

text \<open>
  \<^verbatim>\<open>resolveExtensionPath\<close> asks the sqlite-vector package for the path of its shared
  library, with the platform package as fallback; both are outside the repository, so the
  path, or the error it rethrows, is one answer of the environment.
\<close>

definition loadSqliteVectorExtension :: "driver \<Rightarrow> (SqliteAdapter \<times> call list, unit) prog" where
  "loadSqliteVectorExtension env =
     bnd the_object (\<lambda>a.
     if sq_database a = None then ret ()
     else bnd (call_for (reply_path env) SqliteResolveExtensionPath) (\<lambda>p.
          call_void env (SqliteLoadExtension p None)))"

text \<open>\<^verbatim>\<open>if (extension.entryPoint)\<close> is false for \<^verbatim>\<open>undefined\<close> and for the empty string.\<close>

definition loadAdditionalExtensions :: "driver \<Rightarrow> (SqliteAdapter \<times> call list, unit) prog" where
  "loadAdditionalExtensions env =
     bnd the_object (\<lambda>a.
     if sq_database a = None then ret ()
     else case extensions (sq_config a) of
            None \<Rightarrow> ret ()
          | Some exts \<Rightarrow>
              for_each exts (\<lambda>x.
                case ext_entryPoint x of
                  None \<Rightarrow> call_void env (SqliteLoadExtension (ext_path x) None)
                | Some ep \<Rightarrow>
                    if ep = [] then call_void env (SqliteLoadExtension (ext_path x) None)
                    else call_void env (SqliteLoadExtension (ext_path x) (Some ep))))"

definition applyPragmas :: "driver \<Rightarrow> (SqliteAdapter \<times> call list, unit) prog" where
  "applyPragmas env =
     bnd the_object (\<lambda>a.
     if sq_database a = None then ret ()
     else case pragmas (sq_config a) of
            None \<Rightarrow> ret ()
          | Some ps \<Rightarrow>
              for_each ps (\<lambda>(pragma, v). call_void env (SqlitePragma (pragma @ '' = '' @ v))))"

text \<open>
  \<^verbatim>\<open>new Database(path)\<close> opens the file and may throw; the field is assigned only when it
  returns.  Everything after the assignment may throw with the field already set.
\<close>

definition SqliteAdapter_connect :: "driver \<Rightarrow> (SqliteAdapter \<times> call list, unit) prog" where
  "SqliteAdapter_connect env =
     bnd the_object (\<lambda>a.
     if sq_database a \<noteq> None then ret ()
     else
       bnd (call_void env (SqliteOpen (databasePath (sq_config a)))) (\<lambda>_.
       bnd (assign (\<lambda>a. a\<lparr>sq_database := Some (Database (databasePath (sq_config a)))\<rparr>)) (\<lambda>_.
       bnd (applyPragmas env) (\<lambda>_.
       bnd (loadSqliteVectorExtension env) (\<lambda>_.
       bnd (loadAdditionalExtensions env) (\<lambda>_.
       case defaultTable (sq_config a) of
         None \<Rightarrow> ret ()
       | Some t \<Rightarrow> if t = [] then ret () else SqliteAdapter_createTable env t))))))"

definition SqliteAdapter_disconnect :: "driver \<Rightarrow> (SqliteAdapter \<times> call list, unit) prog" where
  "SqliteAdapter_disconnect env =
     bnd the_object (\<lambda>a.
     if sq_database a \<noteq> None
     then bnd (call_void env SqliteClose) (\<lambda>_. assign (\<lambda>a. a\<lparr>sq_database := None\<rparr>))
     else ret ())"


section \<open>RedisAdapter (redis.adapter.ts)\<close>

record RedisAdapterConfig =
  redis_url_cfg :: "string option"
  redis_host :: "string option"
  redis_port :: "int option"
  redis_password :: "string option"
  redis_database :: "int option"

text \<open>
  The client object of the redis driver.  \<open>isOpen\<close> belongs to the driver: it is unset in a
  fresh client, set once \<^verbatim>\<open>connect()\<close> has resolved, and a rejected \<^verbatim>\<open>connect()\<close> leaves
  it unset.
\<close>

record RedisClientType =
  rc_url :: redis_url
  isOpen :: bool

record RedisAdapter =
  r_client :: "RedisClientType option"
  r_config :: RedisAdapterConfig

definition RedisAdapter_new :: "RedisAdapterConfig \<Rightarrow> RedisAdapter" where
  "RedisAdapter_new cfg = \<lparr> r_client = None, r_config = cfg \<rparr>"

text \<open>\<^verbatim>\<open>this.client?.isOpen\<close>\<close>

definition client_isOpen :: "RedisAdapter \<Rightarrow> bool" where
  "client_isOpen a = (case r_client a of None \<Rightarrow> False | Some c \<Rightarrow> isOpen c)"

text \<open>
  Destructuring defaults apply to \<^verbatim>\<open>undefined\<close> only; \<^verbatim>\<open>password ? ... : ""\<close> is also
  empty for the empty password.  The parts of the URL are kept apart.
\<close>

definition buildConnectionUrl :: "RedisAdapter \<Rightarrow> redis_url" where
  "buildConnectionUrl a =
     (let host = (case redis_host (r_config a) of Some h \<Rightarrow> h | None \<Rightarrow> ''localhost'');
          port = (case redis_port (r_config a) of Some p \<Rightarrow> p | None \<Rightarrow> 6379);
          auth = (case redis_password (r_config a) of
                    Some pw \<Rightarrow> if pw = [] then [] else '':'' @ pw @ ''@''
                  | None \<Rightarrow> [])
      in BuiltUrl auth host port (redis_database (r_config a)))"

definition RedisAdapter_connect :: "driver \<Rightarrow> (RedisAdapter \<times> call list, unit) prog" where
  "RedisAdapter_connect env =
     bnd the_object (\<lambda>a.
     if client_isOpen a then ret ()
     else
       let connectionUrl = (case redis_url_cfg (r_config a) of
                              Some u \<Rightarrow> GivenUrl u
                            | None \<Rightarrow> buildConnectionUrl a)
       in
       bnd (assign (\<lambda>a. a\<lparr>r_client := Some \<lparr> rc_url = connectionUrl, isOpen = False \<rparr>\<rparr>)) (\<lambda>_.
       bnd (call_void env (RedisConnect connectionUrl)) (\<lambda>_.
       assign (\<lambda>a. a\<lparr>r_client := Some \<lparr> rc_url = connectionUrl, isOpen = True \<rparr>\<rparr>))))"

definition RedisAdapter_disconnect :: "driver \<Rightarrow> (RedisAdapter \<times> call list, unit) prog" where
  "RedisAdapter_disconnect env =
     bnd the_object (\<lambda>a.
     if client_isOpen a
     then bnd (call_void env RedisQuit) (\<lambda>_. assign (\<lambda>a. a\<lparr>r_client := None\<rparr>))
     else ret ())"

definition RedisAdapter_isConnected :: "RedisAdapter \<Rightarrow> bool" where
  "RedisAdapter_isConnected a = (case r_client a of None \<Rightarrow> False | Some c \<Rightarrow> isOpen c)"

definition RedisAdapter_ensureConnected :: "(RedisAdapter \<times> call list, unit) prog" where
  "RedisAdapter_ensureConnected =
     bnd the_object (\<lambda>a. if \<not> client_isOpen a then throw RedisNotConnected else ret ())"

definition RedisAdapter_get :: "driver \<Rightarrow> string \<Rightarrow> (RedisAdapter \<times> call list, string option) prog" where
  "RedisAdapter_get env key =
     bnd RedisAdapter_ensureConnected (\<lambda>_. call_for (reply_text env) (RedisGet key))"

text \<open>\<^verbatim>\<open>if (ttlSeconds)\<close> is false for \<^verbatim>\<open>undefined\<close> and for 0.\<close>

definition RedisAdapter_set ::
  "driver \<Rightarrow> string \<Rightarrow> string \<Rightarrow> int option \<Rightarrow> (RedisAdapter \<times> call list, unit) prog" where
  "RedisAdapter_set env key v ttlSeconds =
     bnd RedisAdapter_ensureConnected (\<lambda>_.
     case ttlSeconds of
       None \<Rightarrow> call_void env (RedisSet key v)
     | Some ttl \<Rightarrow>
         if ttl = 0 then call_void env (RedisSet key v)
         else call_void env (RedisSetEx key ttl v))"

definition RedisAdapter_delete :: "driver \<Rightarrow> string \<Rightarrow> (RedisAdapter \<times> call list, bool) prog" where
  "RedisAdapter_delete env key =
     bnd RedisAdapter_ensureConnected (\<lambda>_.
     bnd (call_for (reply_count env) (RedisDel key)) (\<lambda>n. ret (n > 0)))"

definition RedisAdapter_exists :: "driver \<Rightarrow> string \<Rightarrow> (RedisAdapter \<times> call list, bool) prog" where
  "RedisAdapter_exists env key =
     bnd RedisAdapter_ensureConnected (\<lambda>_.
     bnd (call_for (reply_count env) (RedisExists key)) (\<lambda>n. ret (n > 0)))"

definition RedisAdapter_keys :: "driver \<Rightarrow> string \<Rightarrow> (RedisAdapter \<times> call list, string list) prog" where
  "RedisAdapter_keys env pattern =
     bnd RedisAdapter_ensureConnected (\<lambda>_. call_for (reply_names env) (RedisKeys pattern))"


section \<open>PgVectorAdapter (second class of sqlite.adapter.ts)\<close>

record PgVectorAdapterConfig =
  pg_url :: "string option"
  pg_host :: "string option"
  pg_port :: "int option"
  pg_user :: "string option"
  pg_password :: "string option"
  pg_database :: "string option"
  pg_ssl :: "bool option"

datatype Pool = Pool pg_connection

record PgVectorAdapter =
  pg_pool :: "Pool option"
  pg_config :: PgVectorAdapterConfig

datatype distance_function = Cosine | L2 | InnerProduct

record PgSearchResult =
  pr_id :: int
  pr_embedding :: "real list"
  pr_metadata :: "json option"
  pr_distance :: real

definition PgVectorAdapter_new :: "PgVectorAdapterConfig \<Rightarrow> PgVectorAdapter" where
  "PgVectorAdapter_new cfg = \<lparr> pg_pool = None, pg_config = cfg \<rparr>"

text \<open>\<^verbatim>\<open>x || d\<close> on strings: the default replaces \<^verbatim>\<open>undefined\<close> and the empty string.\<close>

definition or_text :: "string option \<Rightarrow> string \<Rightarrow> string" where
  "or_text x d = (case x of None \<Rightarrow> d | Some s \<Rightarrow> if s = [] then d else s)"

definition connectionConfig :: "PgVectorAdapterConfig \<Rightarrow> pg_connection" where
  "connectionConfig cfg =
     (if or_text (pg_url cfg) [] \<noteq> [] then ConnectionString (or_text (pg_url cfg) [])
      else ConnectionFields
             (or_text (pg_host cfg) ''localhost'')
             (case pg_port cfg of None \<Rightarrow> 5432 | Some p \<Rightarrow> if p = 0 then 5432 else p)
             (or_text (pg_user cfg) ''postgres'')
             (pg_password cfg)
             (or_text (pg_database cfg) ''postgres'')
             (pg_ssl cfg))"

definition ensurePgVectorExtension :: "driver \<Rightarrow> (PgVectorAdapter \<times> call list, unit) prog" where
  "ensurePgVectorExtension env = call_void env (PgQuery PgCreateExtension [])"

text \<open>The pool is assigned before the connection is verified.\<close>

definition PgVectorAdapter_connect :: "driver \<Rightarrow> (PgVectorAdapter \<times> call list, unit) prog" where
  "PgVectorAdapter_connect env =
     bnd the_object (\<lambda>a.
     if pg_pool a \<noteq> None then ret ()
     else
       bnd (assign (\<lambda>a. a\<lparr>pg_pool := Some (Pool (connectionConfig (pg_config a)))\<rparr>)) (\<lambda>_.
       bnd (call_void env PgPoolConnect) (\<lambda>_.
       finally_call
         (bnd (call_void env (PgQuery PgSelect1 [])) (\<lambda>_. ensurePgVectorExtension env))
         PgRelease)))"

definition PgVectorAdapter_disconnect :: "driver \<Rightarrow> (PgVectorAdapter \<times> call list, unit) prog" where
  "PgVectorAdapter_disconnect env =
     bnd the_object (\<lambda>a.
     if pg_pool a \<noteq> None
     then bnd (call_void env PgPoolEnd) (\<lambda>_. assign (\<lambda>a. a\<lparr>pg_pool := None\<rparr>))
     else ret ())"

definition PgVectorAdapter_isConnected :: "PgVectorAdapter \<Rightarrow> bool" where
  "PgVectorAdapter_isConnected a = (pg_pool a \<noteq> None)"

definition PgVectorAdapter_ensureConnected :: "(PgVectorAdapter \<times> call list, unit) prog" where
  "PgVectorAdapter_ensureConnected =
     bnd the_object (\<lambda>a. if pg_pool a = None then throw PgNotConnected else ret ())"

definition PgVectorAdapter_createTable ::
  "driver \<Rightarrow> string \<Rightarrow> int \<Rightarrow> (PgVectorAdapter \<times> call list, unit) prog" where
  "PgVectorAdapter_createTable env tableName vectorDimension_arg =
     bnd PgVectorAdapter_ensureConnected (\<lambda>_.
     bnd (call_void env PgPoolConnect) (\<lambda>_.
     finally_call
       (call_void env (PgQuery (PgCreateTable (escapeIdentifier tableName) vectorDimension_arg) []))
       PgRelease))"

definition pg_metadata_param :: "driver \<Rightarrow> json option \<Rightarrow> pg_param" where
  "pg_metadata_param env metadata =
     (case metadata of Some m \<Rightarrow> PgJson (json_stringify env m) | None \<Rightarrow> PgNull)"

text \<open>
  \<^verbatim>\<open>result.rows[0].id\<close>: the answer is the list of returned ids, and reading the first row
  of an empty answer is a TypeError.  The vector is sent as the text \<^verbatim>\<open>[v1,v2,...]\<close>;
  the model keeps the vector.
\<close>

definition PgVectorAdapter_insertVector ::
  "driver \<Rightarrow> string \<Rightarrow> real list \<Rightarrow> json option \<Rightarrow> (PgVectorAdapter \<times> call list, int) prog" where
  "PgVectorAdapter_insertVector env tableName embedding metadata =
     bnd PgVectorAdapter_ensureConnected (\<lambda>_.
     bnd (call_void env PgPoolConnect) (\<lambda>_.
     finally_call
       (bnd (call_for (reply_ids env)
               (PgQuery (PgInsert (escapeIdentifier tableName))
                  [PgVector embedding, pg_metadata_param env metadata])) (\<lambda>ids.
        case ids of [] \<Rightarrow> throw JsTypeError | i # _ \<Rightarrow> ret i))
       PgRelease))"

definition distanceExpr :: "distance_function \<Rightarrow> pg_distance_expr" where
  "distanceExpr distanceFunction =
     (case distanceFunction of
        Cosine \<Rightarrow> One_minus Cosine_op
      | L2 \<Rightarrow> Plain L2_op
      | InnerProduct \<Rightarrow> Plain Inner_op)"

definition pg_result_of_row :: "pg_row \<Rightarrow> PgSearchResult" where
  "pg_result_of_row row =
     \<lparr> pr_id = pg_id row, pr_embedding = pg_embedding row,
       pr_metadata = pg_metadata row, pr_distance = pg_distance row \<rparr>"

text \<open>
  The optional arguments are \<open>None\<close> when the caller leaves them out (defaults 10 and
  \<^verbatim>\<open>"cosine"\<close>).  The statement is
  \<^verbatim>\<open>SELECT id, embedding::text, metadata, ${distanceExpr} as distance FROM ${table}
  ORDER BY embedding <-> $1::vector LIMIT $2\<close>.
\<close>

definition PgVectorAdapter_searchSimilar ::
  "driver \<Rightarrow> string \<Rightarrow> real list \<Rightarrow> int option \<Rightarrow> distance_function option \<Rightarrow>
   (PgVectorAdapter \<times> call list, PgSearchResult list) prog" where
  "PgVectorAdapter_searchSimilar env tableName queryVector limit_arg distance_arg =
     (let limit = (case limit_arg of Some n \<Rightarrow> n | None \<Rightarrow> 10);
          distanceFunction = (case distance_arg of Some d \<Rightarrow> d | None \<Rightarrow> Cosine)
      in
      bnd PgVectorAdapter_ensureConnected (\<lambda>_.
      bnd (call_void env PgPoolConnect) (\<lambda>_.
      finally_call
        (bnd (call_for (reply_pg_rows env)
                (PgQuery (PgSearch (escapeIdentifier tableName) (distanceExpr distanceFunction) L2_op)
                   [PgVector queryVector, PgInt limit])) (\<lambda>rows.
         ret (map pg_result_of_row rows)))
        PgRelease)))"

definition PgVectorAdapter_deleteVector ::
  "driver \<Rightarrow> string \<Rightarrow> int \<Rightarrow> (PgVectorAdapter \<times> call list, bool) prog" where
  "PgVectorAdapter_deleteVector env tableName ident =
     bnd PgVectorAdapter_ensureConnected (\<lambda>_.
     bnd (call_void env PgPoolConnect) (\<lambda>_.
     finally_call
       (bnd (call_for (reply_rowCount env)
               (PgQuery (PgDelete (escapeIdentifier tableName)) [PgInt ident])) (\<lambda>rowCount.
        ret ((case rowCount of Some n \<Rightarrow> n | None \<Rightarrow> 0) > 0)))
       PgRelease))"

definition PgVectorAdapter_dropTable ::
  "driver \<Rightarrow> string \<Rightarrow> (PgVectorAdapter \<times> call list, unit) prog" where
  "PgVectorAdapter_dropTable env tableName =
     bnd PgVectorAdapter_ensureConnected (\<lambda>_.
     bnd (call_void env PgPoolConnect) (\<lambda>_.
     finally_call
       (call_void env (PgQuery (PgDropTable (escapeIdentifier tableName)) []))
       PgRelease))"


section \<open>QdrantAdapter (qdrant.adapter.ts)\<close>

record QdrantAdapterConfig =
  qd_url :: "string option"
  qd_endpoint :: "string option"
  qd_clusterId :: "string option"
  qd_apiKey :: "string option"
  qd_timeoutMs :: "int option"
  qd_defaultCollection :: "string option"

record QdrantSearchOptions =
  so_limit :: "int option"
  so_filter :: "json option"
  so_scoreThreshold :: "real option"
  so_withPayload :: "bool option"

datatype QdrantClient = QdrantClient QdrantClientParams

record QdrantAdapter =
  qd_client :: "QdrantClient option"
  qd_connected :: bool
  qd_config :: QdrantAdapterConfig

definition QdrantAdapter_new :: "QdrantAdapterConfig \<Rightarrow> QdrantAdapter" where
  "QdrantAdapter_new cfg = \<lparr> qd_client = None, qd_connected = False, qd_config = cfg \<rparr>"

fun starts_with :: "string \<Rightarrow> string \<Rightarrow> bool" where
  "starts_with s [] = True"
| "starts_with [] (p # ps) = False"
| "starts_with (c # cs) (p # ps) = (c = p \<and> starts_with cs ps)"

text \<open>\<^verbatim>\<open>s.includes(t)\<close>\<close>

fun includes_text :: "string \<Rightarrow> string \<Rightarrow> bool" where
  "includes_text [] t = (t = [])"
| "includes_text (c # cs) t = (starts_with (c # cs) t \<or> includes_text cs t)"

text \<open>\<^verbatim>\<open>s.replace(/\/$/, "")\<close>\<close>

definition strip_trailing_slash :: "string \<Rightarrow> string" where
  "strip_trailing_slash s = (if s \<noteq> [] \<and> last s = CHR ''/'' then butlast s else s)"

definition first_defined :: "'a option \<Rightarrow> 'a option \<Rightarrow> 'a option" where
  "first_defined x y = (case x of Some v \<Rightarrow> Some v | None \<Rightarrow> y)"

definition resolveUrl :: "driver \<Rightarrow> QdrantAdapter \<Rightarrow> string" where
  "resolveUrl env a =
     (if or_text (qd_url (qd_config a)) [] \<noteq> [] then or_text (qd_url (qd_config a)) []
      else
        let endpoint = (case first_defined (qd_endpoint (qd_config a))
                               (process_env env ''QDRANT_ENDPOINT'') of
                          Some e \<Rightarrow> e | None \<Rightarrow> ''http://localhost:6333'');
            clusterId = first_defined (qd_clusterId (qd_config a))
                          (process_env env ''QDRANT_CLUSTER_ID'')
        in case clusterId of
             None \<Rightarrow> endpoint
           | Some c \<Rightarrow>
               if c \<noteq> [] \<and> \<not> includes_text endpoint c
               then strip_trailing_slash endpoint @ ''/'' @ c
               else endpoint)"

definition resolveApiKey :: "driver \<Rightarrow> QdrantAdapter \<Rightarrow> string option" where
  "resolveApiKey env a =
     (case qd_apiKey (qd_config a) of
        Some k \<Rightarrow> Some k
      | None \<Rightarrow>
          (case process_env env ''QDRANT_API_KEY'' of
             None \<Rightarrow> None
           | Some k \<Rightarrow> if length k > 0 then Some k else None))"

definition QdrantAdapter_connect :: "driver \<Rightarrow> (QdrantAdapter \<times> call list, unit) prog" where
  "QdrantAdapter_connect env =
     bnd the_object (\<lambda>a.
     if qd_connected a then ret ()
     else
       let options = \<lparr> opt_url = resolveUrl env a, opt_apiKey = resolveApiKey env a,
                       opt_timeout = (case qd_timeoutMs (qd_config a) of Some t \<Rightarrow> t | None \<Rightarrow> 10000),
                       opt_checkCompatibility = False \<rparr>
       in
       bnd (assign (\<lambda>a. a\<lparr>qd_client := Some (QdrantClient options)\<rparr>)) (\<lambda>_.
       bnd (call_for (reply_collections env) QdrantGetCollections) (\<lambda>_.
       assign (\<lambda>a. a\<lparr>qd_connected := True\<rparr>))))"

definition QdrantAdapter_disconnect :: "(QdrantAdapter \<times> call list, unit) prog" where
  "QdrantAdapter_disconnect = assign (\<lambda>a. a\<lparr>qd_client := None, qd_connected := False\<rparr>)"

definition QdrantAdapter_isConnected :: "QdrantAdapter \<Rightarrow> bool" where
  "QdrantAdapter_isConnected a = qd_connected a"

definition QdrantAdapter_ensureConnected :: "(QdrantAdapter \<times> call list, unit) prog" where
  "QdrantAdapter_ensureConnected =
     bnd the_object (\<lambda>a.
     if qd_client a = None \<or> \<not> qd_connected a then throw QdrantNotConnected else ret ())"

definition QdrantAdapter_createCollection ::
  "driver \<Rightarrow> string \<Rightarrow> int \<Rightarrow> string option \<Rightarrow> (QdrantAdapter \<times> call list, unit) prog" where
  "QdrantAdapter_createCollection env name vectorSize distance_arg =
     (let distance = (case distance_arg of Some d \<Rightarrow> d | None \<Rightarrow> ''Cosine'')
      in
      bnd QdrantAdapter_ensureConnected (\<lambda>_.
      call_void env (QdrantCreateCollection name vectorSize distance)))"

definition QdrantAdapter_deleteCollection ::
  "driver \<Rightarrow> string \<Rightarrow> (QdrantAdapter \<times> call list, unit) prog" where
  "QdrantAdapter_deleteCollection env name =
     bnd QdrantAdapter_ensureConnected (\<lambda>_. call_void env (QdrantDeleteCollection name))"

definition QdrantAdapter_listCollections ::
  "driver \<Rightarrow> (QdrantAdapter \<times> call list, string list) prog" where
  "QdrantAdapter_listCollections env =
     bnd QdrantAdapter_ensureConnected (\<lambda>_.
     bnd (call_for (reply_collections env) QdrantGetCollections) (\<lambda>response.
     ret (case response of Some names \<Rightarrow> names | None \<Rightarrow> [])))"

definition QdrantAdapter_upsert ::
  "driver \<Rightarrow> string \<Rightarrow> QdrantPointInput list \<Rightarrow> bool option \<Rightarrow> (QdrantAdapter \<times> call list, unit) prog" where
  "QdrantAdapter_upsert env collectionName points wait_arg =
     (let wait = (case wait_arg of Some w \<Rightarrow> w | None \<Rightarrow> True)
      in
      bnd QdrantAdapter_ensureConnected (\<lambda>_.
      call_void env (QdrantUpsert collectionName wait
        (map (\<lambda>point. \<lparr> pt_id = pt_id point, pt_vector = pt_vector point,
                         pt_payload = pt_payload point \<rparr>) points))))"

definition QdrantAdapter_search ::
  "driver \<Rightarrow> string \<Rightarrow> real list \<Rightarrow> QdrantSearchOptions option \<Rightarrow>
   (QdrantAdapter \<times> call list, QdrantSearchResult list) prog" where
  "QdrantAdapter_search env collectionName vector options_arg =
     (let options = (case options_arg of Some opts \<Rightarrow> opts
                     | None \<Rightarrow> \<lparr> so_limit = None, so_filter = None,
                                 so_scoreThreshold = None, so_withPayload = None \<rparr>)
      in
      bnd QdrantAdapter_ensureConnected (\<lambda>_.
      call_for (reply_points env) (QdrantSearch collectionName
        \<lparr> rq_vector = vector,
          rq_limit = (case so_limit options of Some n \<Rightarrow> n | None \<Rightarrow> 10),
          rq_filter = so_filter options,
          rq_score_threshold = so_scoreThreshold options,
          rq_with_payload = (case so_withPayload options of Some b \<Rightarrow> b | None \<Rightarrow> True) \<rparr>)))"


section \<open>VectorSmithAdapter (index.adapter.ts)\<close>

record VectorSmithAdapterConfig =
  cfg_redis :: "RedisAdapterConfig option"
  cfg_pgvector :: "PgVectorAdapterConfig option"
  cfg_qdrant :: "QdrantAdapterConfig option"
  cfg_sqlite :: "SqliteAdapterConfig option"

record VectorSmithAdapter =
  vs_redis :: "RedisAdapter option"
  vs_pgvector :: "PgVectorAdapter option"
  vs_qdrant :: "QdrantAdapter option"
  vs_sqlite :: "SqliteAdapter option"
  vs_config :: VectorSmithAdapterConfig

definition VectorSmithAdapter_new :: "VectorSmithAdapterConfig \<Rightarrow> error + VectorSmithAdapter" where
  "VectorSmithAdapter_new cfg =
     (case (case cfg_sqlite cfg of
              None \<Rightarrow> Inr None
            | Some c \<Rightarrow> (case SqliteAdapter_new c of Inl e \<Rightarrow> Inl e | Inr a \<Rightarrow> Inr (Some a))) of
        Inl e \<Rightarrow> Inl e
      | Inr sqlite \<Rightarrow>
          Inr \<lparr> vs_redis = map_option RedisAdapter_new (cfg_redis cfg),
                vs_pgvector = map_option PgVectorAdapter_new (cfg_pgvector cfg),
                vs_qdrant = map_option QdrantAdapter_new (cfg_qdrant cfg),
                vs_sqlite = sqlite,
                vs_config = cfg \<rparr>)"

text \<open>
  \<open>started m slot l\<close> is the promise pushed for one backend slot: \<open>None\<close> when the slot is
  unset and nothing is pushed, otherwise the settled result of the backend's method, the
  adapter it leaves and the log.  The backends run concurrently in the source; each touches
  only its own adapter, so the model runs them one after the other, in the order the source
  starts them, and describes the state once every started promise has settled.
\<close>

definition started ::
  "('a \<times> call list, unit) prog \<Rightarrow> 'a option \<Rightarrow> call list \<Rightarrow>
   (error + unit) option \<times> 'a option \<times> call list" where
  "started m slot l =
     (case slot of
        None \<Rightarrow> (None, None, l)
      | Some a \<Rightarrow> (case m (a, l) of (r, (a', l')) \<Rightarrow> (Some r, Some a', l')))"

definition connections ::
  "driver \<Rightarrow> VectorSmithAdapter \<times> call list \<Rightarrow>
   (error + unit) option list \<times> (VectorSmithAdapter \<times> call list)" where
  "connections env = (\<lambda>(v, l).
     case started (RedisAdapter_connect env) (vs_redis v) l of (p1, redis', l1) \<Rightarrow>
     case started (PgVectorAdapter_connect env) (vs_pgvector v) l1 of (p2, pgvector', l2) \<Rightarrow>
     case started (SqliteAdapter_connect env) (vs_sqlite v) l2 of (p3, sqlite', l3) \<Rightarrow>
     case started (QdrantAdapter_connect env) (vs_qdrant v) l3 of (p4, qdrant', l4) \<Rightarrow>
       ([p1, p2, p3, p4],
        (v\<lparr>vs_redis := redis', vs_pgvector := pgvector', vs_sqlite := sqlite',
           vs_qdrant := qdrant'\<rparr>, l4)))"

text \<open>
  \<^verbatim>\<open>Promise.all\<close>: fulfilled when every pushed promise is, rejected with the error of a
  rejected one (the first of the list here; in the source, the first to reject in time).
\<close>

fun Promise_all :: "(error + unit) option list \<Rightarrow> error + unit" where
  "Promise_all [] = Inr ()"
| "Promise_all (None # ps) = Promise_all ps"
| "Promise_all (Some (Inl e) # ps) = Inl e"
| "Promise_all (Some (Inr _) # ps) = Promise_all ps"

definition pushed :: "(error + unit) option list \<Rightarrow> (error + unit) list" where
  "pushed ps = concat (map (\<lambda>p. case p of None \<Rightarrow> [] | Some r \<Rightarrow> [r]) ps)"

definition VectorSmithAdapter_connect :: "driver \<Rightarrow> (VectorSmithAdapter \<times> call list, unit) prog" where
  "VectorSmithAdapter_connect env = (\<lambda>s.
     case connections env s of (ps, s') \<Rightarrow>
       if length (pushed ps) = 0 then (Inl NoAdaptersConfigured, s')
       else (Promise_all ps, s'))"

text \<open>\<^verbatim>\<open>if (this.redis?.isConnected()) disconnections.push(this.redis.disconnect())\<close>\<close>

definition started_if ::
  "('a \<Rightarrow> bool) \<Rightarrow> ('a \<times> call list, unit) prog \<Rightarrow> 'a option \<Rightarrow> call list \<Rightarrow>
   (error + unit) option \<times> 'a option \<times> call list" where
  "started_if isConnected m slot l =
     (case slot of
        None \<Rightarrow> (None, None, l)
      | Some a \<Rightarrow>
          if isConnected a then (case m (a, l) of (r, (a', l')) \<Rightarrow> (Some r, Some a', l'))
          else (None, Some a, l))"

definition disconnections ::
  "driver \<Rightarrow> VectorSmithAdapter \<times> call list \<Rightarrow>
   (error + unit) option list \<times> (VectorSmithAdapter \<times> call list)" where
  "disconnections env = (\<lambda>(v, l).
     case started_if RedisAdapter_isConnected (RedisAdapter_disconnect env) (vs_redis v) l
       of (p1, redis', l1) \<Rightarrow>
     case started_if PgVectorAdapter_isConnected (PgVectorAdapter_disconnect env) (vs_pgvector v) l1
       of (p2, pgvector', l2) \<Rightarrow>
     case started_if SqliteAdapter_isConnected (SqliteAdapter_disconnect env) (vs_sqlite v) l2
       of (p3, sqlite', l3) \<Rightarrow>
     case started_if QdrantAdapter_isConnected QdrantAdapter_disconnect (vs_qdrant v) l3
       of (p4, qdrant', l4) \<Rightarrow>
       ([p1, p2, p3, p4],
        (v\<lparr>vs_redis := redis', vs_pgvector := pgvector', vs_sqlite := sqlite',
           vs_qdrant := qdrant'\<rparr>, l4)))"

definition VectorSmithAdapter_disconnect :: "driver \<Rightarrow> (VectorSmithAdapter \<times> call list, unit) prog" where
  "VectorSmithAdapter_disconnect env = (\<lambda>s.
     case disconnections env s of (ps, s') \<Rightarrow> (Promise_all ps, s'))"

definition getRedis :: "VectorSmithAdapter \<Rightarrow> error + RedisAdapter" where
  "getRedis v = (case vs_redis v of None \<Rightarrow> Inl RedisAdapterNotConfigured | Some a \<Rightarrow> Inr a)"

definition getPgVector :: "VectorSmithAdapter \<Rightarrow> error + PgVectorAdapter" where
  "getPgVector v = (case vs_pgvector v of None \<Rightarrow> Inl PgVectorAdapterNotConfigured | Some a \<Rightarrow> Inr a)"

definition getSqlite :: "VectorSmithAdapter \<Rightarrow> error + SqliteAdapter" where
  "getSqlite v = (case vs_sqlite v of None \<Rightarrow> Inl SqliteAdapterNotConfigured | Some a \<Rightarrow> Inr a)"

definition getQdrant :: "VectorSmithAdapter \<Rightarrow> error + QdrantAdapter" where
  "getQdrant v = (case vs_qdrant v of None \<Rightarrow> Inl QdrantAdapterNotConfigured | Some a \<Rightarrow> Inr a)"

definition VectorSmithAdapter_isConnected :: "VectorSmithAdapter \<Rightarrow> bool" where
  "VectorSmithAdapter_isConnected v =
     (let connected = False;
          connected = (case vs_redis v of
                         Some a \<Rightarrow> connected \<or> RedisAdapter_isConnected a | None \<Rightarrow> connected);
          connected = (case vs_pgvector v of
                         Some a \<Rightarrow> connected \<or> PgVectorAdapter_isConnected a | None \<Rightarrow> connected);
          connected = (case vs_sqlite v of
                         Some a \<Rightarrow> connected \<or> SqliteAdapter_isConnected a | None \<Rightarrow> connected);
          connected = (case vs_qdrant v of
                         Some a \<Rightarrow> connected \<or> QdrantAdapter_isConnected a | None \<Rightarrow> connected)
      in connected)"


section \<open>Embedding providers (jina_ai.embedding.ts, openai.embedding.ts)\<close>

text \<open>
  What \<^verbatim>\<open>fetch\<close> and the reads of the response body can do: throw (an \<^verbatim>\<open>AbortError\<close> when
  the timer fired, or another error) or give a value.  The parsed body is cast without a
  check, so \<open>data\<close> may be missing or no array, an item of \<open>data\<close> may be \<^verbatim>\<open>null\<close>, and
  the \<open>embedding\<close> of an item may be no array (it is \<^verbatim>\<open>undefined\<close> for an item that is no
  object).
\<close>

datatype thrown = AbortError | OtherError string

datatype 'a attempt = Threw thrown | Gave 'a

datatype js_embedding = NotArray | Vec "real list"

datatype data_item = NullItem | Item js_embedding

datatype embeddings_json = NoDataArray | Data "data_item list"

record http_response =
  ok :: bool
  status :: int
  text_body :: "string attempt"
  json_body :: "embeddings_json attempt"

record http_request =
  rq_url :: string
  rq_authorization :: string
  rq_model :: string
  rq_input :: "string list"

record EmbeddingProviderOptions =
  o_baseUrl :: "string option"
  o_timeoutMs :: "int option"
  o_expectedDimensions :: "int option"

record JinaAIEmbeddingProvider =
  j_apiKey :: string
  j_model :: string
  j_baseUrl :: string
  j_timeoutMs :: int
  j_expectedDimensions :: "int option"

record OpenAIEmbeddingProvider =
  o_apiKey :: string
  o_model :: string
  o_base :: string
  o_timeout :: int
  o_expected :: "int option"

definition no_options :: EmbeddingProviderOptions where
  "no_options = \<lparr> o_baseUrl = None, o_timeoutMs = None, o_expectedDimensions = None \<rparr>"

definition JinaAIEmbeddingProvider_new ::
  "string \<Rightarrow> string \<Rightarrow> EmbeddingProviderOptions option \<Rightarrow> error + JinaAIEmbeddingProvider" where
  "JinaAIEmbeddingProvider_new apiKey model options_arg =
     (let options = (case options_arg of Some opts \<Rightarrow> opts | None \<Rightarrow> no_options)
      in if apiKey = [] then Inl (ApiKeyRequired Jina)
         else if model = [] then Inl (ModelRequired Jina)
         else Inr \<lparr> j_apiKey = apiKey, j_model = model,
                    j_baseUrl = (case o_baseUrl options of Some u \<Rightarrow> u | None \<Rightarrow> ''https://api.jina.ai/v1''),
                    j_timeoutMs = (case o_timeoutMs options of Some t \<Rightarrow> t | None \<Rightarrow> 60000),
                    j_expectedDimensions = o_expectedDimensions options \<rparr>)"

definition OpenAIEmbeddingProvider_new ::
  "string \<Rightarrow> string \<Rightarrow> EmbeddingProviderOptions option \<Rightarrow> error + OpenAIEmbeddingProvider" where
  "OpenAIEmbeddingProvider_new apiKey model options_arg =
     (let options = (case options_arg of Some opts \<Rightarrow> opts | None \<Rightarrow> no_options)
      in if apiKey = [] then Inl (ApiKeyRequired OpenAI)
         else if model = [] then Inl (ModelRequired OpenAI)
         else Inr \<lparr> o_apiKey = apiKey, o_model = model,
                    o_base = (case o_baseUrl options of Some u \<Rightarrow> u | None \<Rightarrow> ''https://api.openai.com/v1''),
                    o_timeout = (case o_timeoutMs options of Some t \<Rightarrow> t | None \<Rightarrow> 60000),
                    o_expected = o_expectedDimensions options \<rparr>)"

definition safeReadText :: "http_response \<Rightarrow> string" where
  "safeReadText res = (case text_body res of Gave t \<Rightarrow> t | Threw _ \<Rightarrow> ''<no body>'')"

text \<open>
  The loop over the returned vectors: the first vector that is no array or has another
  length than \<open>d\<close>, as \<open>Some got\<close>, where \<open>got\<close> is its length or \<open>None\<close> for "invalid".
\<close>

fun first_mismatch :: "int \<Rightarrow> js_embedding list \<Rightarrow> nat option option" where
  "first_mismatch d [] = None"
| "first_mismatch d (NotArray # vs) = Some None"
| "first_mismatch d (Vec xs # vs) =
     (if int (length xs) \<noteq> d then Some (Some (length xs)) else first_mismatch d vs)"

text \<open>
  \<^verbatim>\<open>json.data.map((d) => d.embedding)\<close>: reading the property of a \<^verbatim>\<open>null\<close> item throws a
  TypeError, which leaves the \<^verbatim>\<open>try\<close> block through the rethrowing \<^verbatim>\<open>catch\<close>.
\<close>

definition embedding_of_item :: "data_item \<Rightarrow> error + js_embedding" where
  "embedding_of_item d = (case d of NullItem \<Rightarrow> Inl JsTypeError | Item v \<Rightarrow> Inr v)"

text \<open>
  The request of \<^verbatim>\<open>fetch(`${this.baseUrl}/embeddings`, ...)\<close>: the URL, the bearer
  header and the two fields of the JSON body.
\<close>

definition jina_request :: "JinaAIEmbeddingProvider \<Rightarrow> string list \<Rightarrow> http_request" where
  "jina_request p texts =
     \<lparr> rq_url = j_baseUrl p @ ''/embeddings'', rq_authorization = ''Bearer '' @ j_apiKey p,
       rq_model = j_model p, rq_input = texts \<rparr>"

definition openai_request :: "OpenAIEmbeddingProvider \<Rightarrow> string list \<Rightarrow> http_request" where
  "openai_request p texts =
     \<lparr> rq_url = o_base p @ ''/embeddings'', rq_authorization = ''Bearer '' @ o_apiKey p,
       rq_model = o_model p, rq_input = texts \<rparr>"

definition JinaAIEmbeddingProvider_embed ::
  "(http_request \<Rightarrow> http_response attempt) \<Rightarrow> JinaAIEmbeddingProvider \<Rightarrow> string list \<Rightarrow>
   error + js_embedding list" where
  "JinaAIEmbeddingProvider_embed fetch p texts =
     (if length texts = 0 then Inl EmbedEmptyInput
      else
        let caught = (\<lambda>x. case x of
                        AbortError \<Rightarrow> Inl (EmbeddingsTimedOut Jina (j_timeoutMs p))
                      | OtherError m \<Rightarrow> Inl (DriverError m))
        in
        case fetch (jina_request p texts) of
          Threw x \<Rightarrow> caught x
        | Gave res \<Rightarrow>
            if \<not> ok res then Inl (EmbeddingsFailed Jina (status res) (safeReadText res))
            else
              (case json_body res of
                 Threw x \<Rightarrow> caught x
               | Gave NoDataArray \<Rightarrow> Inl (UnexpectedResponseShape Jina)
               | Gave (Data items) \<Rightarrow>
                   (case map_rows embedding_of_item items of
                      Inl e \<Rightarrow> Inl e
                    | Inr vectors \<Rightarrow>
                        (case j_expectedDimensions p of
                           None \<Rightarrow> Inr vectors
                         | Some d \<Rightarrow>
                             (case first_mismatch d vectors of
                                Some got \<Rightarrow> Inl (EmbeddingDimensionMismatch Jina d got)
                              | None \<Rightarrow> Inr vectors)))))"

definition OpenAIEmbeddingProvider_embed ::
  "(http_request \<Rightarrow> http_response attempt) \<Rightarrow> OpenAIEmbeddingProvider \<Rightarrow> string list \<Rightarrow>
   error + js_embedding list" where
  "OpenAIEmbeddingProvider_embed fetch p texts =
     (if length texts = 0 then Inl EmbedEmptyInput
      else
        let caught = (\<lambda>x. case x of
                        AbortError \<Rightarrow> Inl (EmbeddingsTimedOut OpenAI (o_timeout p))
                      | OtherError m \<Rightarrow> Inl (DriverError m))
        in
        case fetch (openai_request p texts) of
          Threw x \<Rightarrow> caught x
        | Gave res \<Rightarrow>
            if \<not> ok res then Inl (EmbeddingsFailed OpenAI (status res) (safeReadText res))
            else
              (case json_body res of
                 Threw x \<Rightarrow> caught x
               | Gave NoDataArray \<Rightarrow> Inl (UnexpectedResponseShape OpenAI)
               | Gave (Data items) \<Rightarrow>
                   (case map_rows embedding_of_item items of
                      Inl e \<Rightarrow> Inl e
                    | Inr vectors \<Rightarrow>
                        (case o_expected p of
                           None \<Rightarrow> Inr vectors
                         | Some d \<Rightarrow>
                             (case first_mismatch d vectors of
                                Some got \<Rightarrow> Inl (EmbeddingDimensionMismatch OpenAI d got)
                              | None \<Rightarrow> Inr vectors)))))"

text \<open>\<^verbatim>\<open>const [vector] = await this.embed([text])\<close>: \<open>None\<close> is \<^verbatim>\<open>undefined\<close>.\<close>

definition first_vector :: "js_embedding list \<Rightarrow> js_embedding option" where
  "first_vector vs = (case vs of [] \<Rightarrow> None | v # _ \<Rightarrow> Some v)"

definition JinaAIEmbeddingProvider_embedOne ::
  "(http_request \<Rightarrow> http_response attempt) \<Rightarrow> JinaAIEmbeddingProvider \<Rightarrow> string \<Rightarrow>
   error + js_embedding option" where
  "JinaAIEmbeddingProvider_embedOne fetch p t =
     (case JinaAIEmbeddingProvider_embed fetch p [t] of
        Inl e \<Rightarrow> Inl e | Inr vs \<Rightarrow> Inr (first_vector vs))"

definition OpenAIEmbeddingProvider_embedOne ::
  "(http_request \<Rightarrow> http_response attempt) \<Rightarrow> OpenAIEmbeddingProvider \<Rightarrow> string \<Rightarrow>
   error + js_embedding option" where
  "OpenAIEmbeddingProvider_embedOne fetch p t =
     (case OpenAIEmbeddingProvider_embed fetch p [t] of
        Inl e \<Rightarrow> Inl e | Inr vs \<Rightarrow> Inr (first_vector vs))"


section \<open>VectorSmithEmbedding (index.embedding.ts)\<close>

record JinaEmbeddingConfig =
  jc_apiKey :: string
  jc_model :: string
  jc_options :: "EmbeddingProviderOptions option"

record OpenAIEmbeddingConfig =
  oc_apiKey :: string
  oc_model :: string
  oc_options :: "EmbeddingProviderOptions option"

record VectorSmithEmbeddingConfig =
  cfg_defaultProvider :: "EmbeddingProviderType option"
  cfg_jina :: "JinaEmbeddingConfig option"
  cfg_openai :: "OpenAIEmbeddingConfig option"

datatype EmbeddingProvider =
    JinaProvider JinaAIEmbeddingProvider
  | OpenAIProvider OpenAIEmbeddingProvider

text \<open>
  The \<^verbatim>\<open>Map\<close> of providers is an association list in insertion order: \<^verbatim>\<open>set\<close> is
  \<open>AList.update\<close>, \<^verbatim>\<open>get\<close> is \<open>map_of\<close>, \<^verbatim>\<open>size\<close> is \<open>length\<close>, and the first key of
  \<^verbatim>\<open>keys()\<close> is that of the first pair.
\<close>

record VectorSmithEmbedding =
  providers :: "(EmbeddingProviderType \<times> EmbeddingProvider) list"
  defaultProvider :: "EmbeddingProviderType option"

definition then_do :: "error + 'a \<Rightarrow> ('a \<Rightarrow> error + 'b) \<Rightarrow> error + 'b" where
  "then_do r f = (case r of Inl e \<Rightarrow> Inl e | Inr x \<Rightarrow> f x)"

definition VectorSmithEmbedding_new :: "VectorSmithEmbeddingConfig \<Rightarrow> error + VectorSmithEmbedding" where
  "VectorSmithEmbedding_new cfg =
     then_do (case cfg_jina cfg of
                None \<Rightarrow> Inr []
              | Some j \<Rightarrow>
                  then_do (JinaAIEmbeddingProvider_new (jc_apiKey j) (jc_model j) (jc_options j))
                    (\<lambda>p. Inr (AList.update Jina (JinaProvider p) []))) (\<lambda>ps1.
     then_do (case cfg_openai cfg of
                None \<Rightarrow> Inr ps1
              | Some c \<Rightarrow>
                  then_do (OpenAIEmbeddingProvider_new (oc_apiKey c) (oc_model c) (oc_options c))
                    (\<lambda>p. Inr (AList.update OpenAI (OpenAIProvider p) ps1))) (\<lambda>ps.
     if length ps = 0 then Inl NoEmbeddingProviderConfigured
     else case cfg_defaultProvider cfg of
            Some t \<Rightarrow>
              if map_of ps t = None then Inl (DefaultProviderNotConfigured t)
              else Inr \<lparr> providers = ps, defaultProvider = Some t \<rparr>
          | None \<Rightarrow>
              if length ps = 1 then Inr \<lparr> providers = ps, defaultProvider = Some (fst (hd ps)) \<rparr>
              else Inr \<lparr> providers = ps, defaultProvider = None \<rparr>))"

definition hasProvider :: "VectorSmithEmbedding \<Rightarrow> EmbeddingProviderType \<Rightarrow> bool" where
  "hasProvider e t = (map_of (providers e) t \<noteq> None)"

definition setDefaultProvider ::
  "VectorSmithEmbedding \<Rightarrow> EmbeddingProviderType \<Rightarrow> error + VectorSmithEmbedding" where
  "setDefaultProvider e t =
     (if map_of (providers e) t = None then Inl (CannotSetDefault t)
      else Inr (e\<lparr>defaultProvider := Some t\<rparr>))"

definition getDefaultProviderType :: "VectorSmithEmbedding \<Rightarrow> EmbeddingProviderType option" where
  "getDefaultProviderType e = defaultProvider e"

definition getProvider ::
  "VectorSmithEmbedding \<Rightarrow> EmbeddingProviderType option \<Rightarrow> error + EmbeddingProvider" where
  "getProvider e type_arg =
     (let resolvedType = (case type_arg of Some t \<Rightarrow> Some t | None \<Rightarrow> defaultProvider e)
      in case resolvedType of
           None \<Rightarrow> Inl NoDefaultProvider
         | Some t \<Rightarrow>
             (case map_of (providers e) t of
                None \<Rightarrow> Inl (ProviderNotConfigured t)
              | Some provider \<Rightarrow> Inr provider))"

definition VectorSmithEmbedding_embed ::
  "(http_request \<Rightarrow> http_response attempt) \<Rightarrow> VectorSmithEmbedding \<Rightarrow> string list \<Rightarrow>
   EmbeddingProviderType option \<Rightarrow> error + js_embedding list" where
  "VectorSmithEmbedding_embed fetch e texts type_arg =
     then_do (getProvider e type_arg) (\<lambda>provider.
       case provider of
         JinaProvider p \<Rightarrow> JinaAIEmbeddingProvider_embed fetch p texts
       | OpenAIProvider p \<Rightarrow> OpenAIEmbeddingProvider_embed fetch p texts)"

definition VectorSmithEmbedding_embedOne ::
  "(http_request \<Rightarrow> http_response attempt) \<Rightarrow> VectorSmithEmbedding \<Rightarrow> string \<Rightarrow>
   EmbeddingProviderType option \<Rightarrow> error + js_embedding option" where
  "VectorSmithEmbedding_embedOne fetch e t type_arg =
     then_do (getProvider e type_arg) (\<lambda>provider.
       case provider of
         JinaProvider p \<Rightarrow> JinaAIEmbeddingProvider_embedOne fetch p t
       | OpenAIProvider p \<Rightarrow> OpenAIEmbeddingProvider_embedOne fetch p t)"

section \<open>The database side of a PgVector search\<close>

text \<open>
  PostgreSQL and the pgvector extension are outside the repository.  To say what "closest
  first under a metric" means for the rows a search returns, the three operators are
  taken as pgvector documents them: \<^verbatim>\<open><->\<close> is the Euclidean distance, \<^verbatim>\<open><=>\<close> the cosine
  distance, \<^verbatim>\<open><#>\<close> the negated inner product.  \<open>select_similar\<close> evaluates the search
  statement of the adapter on a table: the rows ordered by the operator of the
  \<^verbatim>\<open>ORDER BY\<close> clause, cut at the limit, each with the selected distance expression.
\<close>

definition dot_product :: "real list \<Rightarrow> real list \<Rightarrow> real" where
  "dot_product a b = sum_list (map (\<lambda>(x, y). x * y) (zip a b))"

definition pgvector_distance :: "pg_operator \<Rightarrow> real list \<Rightarrow> real list \<Rightarrow> real" where
  "pgvector_distance operator a b =
     (case operator of
        L2_op \<Rightarrow> sqrt (sum_list (map (\<lambda>(x, y). (x - y)\<^sup>2) (zip a b)))
      | Cosine_op \<Rightarrow> 1 - dot_product a b / (sqrt (dot_product a a) * sqrt (dot_product b b))
      | Inner_op \<Rightarrow> - dot_product a b)"

definition selected_distance :: "pg_distance_expr \<Rightarrow> real list \<Rightarrow> real list \<Rightarrow> real" where
  "selected_distance expr a b =
     (case expr of
        One_minus operator \<Rightarrow> 1 - pgvector_distance operator a b
      | Plain operator \<Rightarrow> pgvector_distance operator a b)"

record stored_row =
  st_id :: int
  st_embedding :: "real list"
  st_metadata :: "json option"

definition select_similar ::
  "stored_row list \<Rightarrow> pg_distance_expr \<Rightarrow> pg_operator \<Rightarrow> real list \<Rightarrow> int \<Rightarrow> pg_row list" where
  "select_similar table expr order_by q n =
     map (\<lambda>r. \<lparr> pg_id = st_id r, pg_embedding = st_embedding r, pg_metadata = st_metadata r,
                 pg_distance = selected_distance expr (st_embedding r) q \<rparr>)
       (take (nat n) (sort_key (\<lambda>r. pgvector_distance order_by (st_embedding r) q) table))"

text \<open>The operator that measures closeness under the metric the caller selects.\<close>

definition metric_operator :: "distance_function \<Rightarrow> pg_operator" where
  "metric_operator f = (case f of Cosine \<Rightarrow> Cosine_op | L2 \<Rightarrow> L2_op | InnerProduct \<Rightarrow> Inner_op)"

definition closest_first :: "distance_function \<Rightarrow> real list \<Rightarrow> PgSearchResult list \<Rightarrow> bool" where
  "closest_first f q results =
     sorted (map (\<lambda>r. pgvector_distance (metric_operator f) (pr_embedding r) q) results)"


section \<open>Notions used in the statements\<close>

text \<open>A method that leaves the fields of its object as they are.\<close>

definition keeps_object :: "('h \<times> call list, 'a) prog \<Rightarrow> bool" where
  "keeps_object m = (\<forall>s r s'. m s = (r, s') \<longrightarrow> fst s' = fst s)"

definition is_metric_mismatch :: "error + 'a \<Rightarrow> bool" where
  "is_metric_mismatch r = (case r of Inl (SqliteMetricMismatch _ _) \<Rightarrow> True | _ \<Rightarrow> False)"


text \<open>A provider type is configured when the configuration has its key.\<close>

definition configured :: "VectorSmithEmbeddingConfig \<Rightarrow> EmbeddingProviderType \<Rightarrow> bool" where
  "configured cfg t = (case t of Jina \<Rightarrow> cfg_jina cfg \<noteq> None | OpenAI \<Rightarrow> cfg_openai cfg \<noteq> None)"

text \<open>
  The default provider in the words of the specification: the explicitly configured one,
  else the sole configured provider when exactly one exists, else unset.
\<close>

definition spec_default :: "VectorSmithEmbeddingConfig \<Rightarrow> EmbeddingProviderType option" where
  "spec_default cfg =
     (case cfg_defaultProvider cfg of
        Some t \<Rightarrow> Some t
      | None \<Rightarrow>
          if configured cfg Jina \<and> \<not> configured cfg OpenAI then Some Jina
          else if configured cfg OpenAI \<and> \<not> configured cfg Jina then Some OpenAI
          else None)"

text \<open>
  The provider constructors accept the configured credentials: they throw for an empty
  \<open>apiKey\<close> and for an empty \<open>model\<close>.
\<close>

definition accepted_credentials :: "VectorSmithEmbeddingConfig \<Rightarrow> bool" where
  "accepted_credentials cfg =
     ((case cfg_jina cfg of None \<Rightarrow> True | Some j \<Rightarrow> jc_apiKey j \<noteq> [] \<and> jc_model j \<noteq> []) \<and>
      (case cfg_openai cfg of None \<Rightarrow> True | Some c \<Rightarrow> oc_apiKey c \<noteq> [] \<and> oc_model c \<noteq> []))"

definition provider_type :: "EmbeddingProvider \<Rightarrow> EmbeddingProviderType" where
  "provider_type p = (case p of JinaProvider _ \<Rightarrow> Jina | OpenAIProvider _ \<Rightarrow> OpenAI)"


section \<open>Concrete drivers, configurations and objects\<close>

text \<open>A driver that accepts every call.\<close>

definition accepting_driver :: driver where
  "accepting_driver =
     \<lparr> reply_void = (\<lambda>_. None),
       reply_path = (\<lambda>_. Inr ''vector.so''),
       reply_run = (\<lambda>_. Inr \<lparr> changes = 1, lastInsertRowid = 1 \<rparr>),
       reply_rows = (\<lambda>_. Inr []),
       reply_text = (\<lambda>_. Inr None),
       reply_count = (\<lambda>_. Inr 0),
       reply_names = (\<lambda>_. Inr []),
       reply_ids = (\<lambda>_. Inr [1]),
       reply_rowCount = (\<lambda>_. Inr (Some 1)),
       reply_pg_rows = (\<lambda>_. Inr []),
       reply_collections = (\<lambda>_. Inr (Some [])),
       reply_points = (\<lambda>_. Inr []),
       json_parse = (\<lambda>s. Some s),
       json_stringify = (\<lambda>j. j),
       process_env = (\<lambda>_. None) \<rparr>"


text \<open>A database that answers a search as \<open>select_similar\<close> does on the given table.\<close>

definition pgvector_database :: "stored_row list \<Rightarrow> driver" where
  "pgvector_database table =
     accepting_driver\<lparr> reply_pg_rows := (\<lambda>l.
       case last l of
         PgQuery (PgSearch t expr order_by) [PgVector q, PgInt n] \<Rightarrow>
           Inr (select_similar table expr order_by q n)
       | _ \<Rightarrow> Inl ''not a search'') \<rparr>"

text \<open>A PostgreSQL server that refuses connections; the other backends accept every call.\<close>

definition failing_postgres :: driver where
  "failing_postgres =
     accepting_driver\<lparr> reply_void := (\<lambda>l. if last l = PgPoolConnect then Some ''ECONNREFUSED'' else None) \<rparr>"

definition two_rows :: "stored_row list" where
  "two_rows =
     [\<lparr> st_id = 1, st_embedding = [4, 0], st_metadata = None \<rparr>,
      \<lparr> st_id = 2, st_embedding = [-1, 0], st_metadata = None \<rparr>]"

definition example_pg_config :: PgVectorAdapterConfig where
  "example_pg_config =
     \<lparr> pg_url = None, pg_host = None, pg_port = None, pg_user = None, pg_password = None,
       pg_database = None, pg_ssl = None \<rparr>"

definition connected_pg :: PgVectorAdapter where
  "connected_pg =
     \<lparr> pg_pool = Some (Pool (connectionConfig example_pg_config)), pg_config = example_pg_config \<rparr>"

definition example_sqlite_config :: SqliteAdapterConfig where
  "example_sqlite_config =
     \<lparr> databasePath = '':memory:'', vectorDimension = 3, defaultTable = None,
       cfg_distanceMetric = Some ''dot'', cfg_vectorType = None, pragmas = None,
       extensions = None \<rparr>"

definition connected_sqlite :: SqliteAdapter where
  "connected_sqlite =
     \<lparr> sq_database = Some (Database '':memory:''), sq_config = example_sqlite_config,
       sq_vectorType = ''FLOAT32'', sq_distanceMetric = ''dot'' \<rparr>"

definition example_redis_config :: RedisAdapterConfig where
  "example_redis_config =
     \<lparr> redis_url_cfg = None, redis_host = None, redis_port = None, redis_password = None,
       redis_database = None \<rparr>"

definition connected_redis :: RedisAdapter where
  "connected_redis =
     \<lparr> r_client = Some \<lparr> rc_url = BuiltUrl [] ''localhost'' 6379 None, isOpen = True \<rparr>,
       r_config = example_redis_config \<rparr>"

definition example_qdrant_config :: QdrantAdapterConfig where
  "example_qdrant_config =
     \<lparr> qd_url = None, qd_endpoint = None, qd_clusterId = None, qd_apiKey = None,
       qd_timeoutMs = None, qd_defaultCollection = None \<rparr>"

definition no_backends :: VectorSmithAdapterConfig where
  "no_backends = \<lparr> cfg_redis = None, cfg_pgvector = None, cfg_qdrant = None, cfg_sqlite = None \<rparr>"

definition empty_aggregator :: VectorSmithAdapter where
  "empty_aggregator =
     \<lparr> vs_redis = None, vs_pgvector = None, vs_qdrant = None, vs_sqlite = None,
       vs_config = no_backends \<rparr>"

definition redis_and_pg :: VectorSmithAdapter where
  "redis_and_pg =
     \<lparr> vs_redis = Some (RedisAdapter_new example_redis_config),
       vs_pgvector = Some (PgVectorAdapter_new example_pg_config),
       vs_qdrant = None, vs_sqlite = None,
       vs_config = \<lparr> cfg_redis = Some example_redis_config, cfg_pgvector = Some example_pg_config,
                     cfg_qdrant = None, cfg_sqlite = None \<rparr> \<rparr>"

definition after_failed_connect :: VectorSmithAdapter where
  "after_failed_connect =
     redis_and_pg\<lparr> vs_redis := Some connected_redis, vs_pgvector := Some connected_pg \<rparr>"






definition jina_only :: VectorSmithEmbeddingConfig where
  "jina_only =
     \<lparr> cfg_defaultProvider = None,
       cfg_jina = Some \<lparr> jc_apiKey = ''key'', jc_model = ''jina-code-embeddings-0.5b'',
                         jc_options = None \<rparr>,
       cfg_openai = None \<rparr>"

definition jina_registry :: VectorSmithEmbedding where
  "jina_registry =
     \<lparr> providers =
         [(Jina, JinaProvider \<lparr> j_apiKey = ''key'', j_model = ''jina-code-embeddings-0.5b'',
                               j_baseUrl = ''https://api.jina.ai/v1'', j_timeoutMs = 60000,
                               j_expectedDimensions = None \<rparr>)],
       defaultProvider = Some Jina \<rparr>"

text \<open>Both providers configured, OpenAI named as the default.\<close>

definition both_default_openai :: VectorSmithEmbeddingConfig where
  "both_default_openai =
     \<lparr> cfg_defaultProvider = Some OpenAI,
       cfg_jina = Some \<lparr> jc_apiKey = ''key'', jc_model = ''jina-code-embeddings-0.5b'',
                         jc_options = None \<rparr>,
       cfg_openai = Some \<lparr> oc_apiKey = ''key'', oc_model = ''text-embedding-3-small'',
                           oc_options = None \<rparr> \<rparr>"

definition both_registry :: VectorSmithEmbedding where
  "both_registry =
     \<lparr> providers =
         [(Jina, JinaProvider \<lparr> j_apiKey = ''key'', j_model = ''jina-code-embeddings-0.5b'',
                               j_baseUrl = ''https://api.jina.ai/v1'', j_timeoutMs = 60000,
                               j_expectedDimensions = None \<rparr>),
          (OpenAI, OpenAIProvider \<lparr> o_apiKey = ''key'', o_model = ''text-embedding-3-small'',
                                   o_base = ''https://api.openai.com/v1'', o_timeout = 60000,
                                   o_expected = None \<rparr>)],
       defaultProvider = Some OpenAI \<rparr>"


section \<open>Basic facts about the effect monad\<close>

lemmas prog_defs = bnd_def ret_def throw_def lift_def the_object_def assign_def
  call_void_def call_for_def finally_call_def ignoring_def answer_def

lemma keeps_objectD: "keeps_object m \<Longrightarrow> m (a, l) = (r, (a', l')) \<Longrightarrow> a' = a"
  unfolding keeps_object_def by fastforce

lemma keeps_object_bnd:
  "keeps_object m \<Longrightarrow> (\<And>x. keeps_object (f x)) \<Longrightarrow> keeps_object (bnd m f)"
  unfolding keeps_object_def bnd_def
  by (auto split: prod.splits sum.splits) metis+

lemma keeps_object_basic:
  "keeps_object (ret x)" "keeps_object (throw e)" "keeps_object (lift r)"
  "keeps_object the_object" "keeps_object (call_void env c)" "keeps_object (call_for reply c)"
  unfolding keeps_object_def ret_def throw_def lift_def the_object_def call_void_def call_for_def
  by (auto split: prod.splits)

lemma keeps_object_if:
  "(b \<Longrightarrow> keeps_object m) \<Longrightarrow> (\<not> b \<Longrightarrow> keeps_object n) \<Longrightarrow> keeps_object (if b then m else n)"
  by simp

lemma keeps_object_ignoring: "keeps_object m \<Longrightarrow> keeps_object (ignoring m)"
  unfolding keeps_object_def ignoring_def by (auto split: prod.splits)

lemma keeps_object_finally: "keeps_object m \<Longrightarrow> keeps_object (finally_call m c)"
  unfolding keeps_object_def finally_call_def by (auto split: prod.splits)

lemma keeps_object_for_each: "(\<And>x. keeps_object (f x)) \<Longrightarrow> keeps_object (for_each xs f)"
  by (induction xs) (auto intro: keeps_object_bnd keeps_object_basic)

lemmas keeps_object_intros =
  keeps_object_bnd keeps_object_basic keeps_object_if keeps_object_ignoring
  keeps_object_finally keeps_object_for_each


section \<open>The connection guards\<close>

lemma redis_guard:
  "\<not> RedisAdapter_isConnected a \<Longrightarrow>
   bnd RedisAdapter_ensureConnected f (a, l) = (Inl RedisNotConnected, (a, l))"
  by (simp add: RedisAdapter_ensureConnected_def RedisAdapter_isConnected_def client_isOpen_def
      bnd_def the_object_def throw_def)

lemma pg_guard:
  "\<not> PgVectorAdapter_isConnected a \<Longrightarrow>
   bnd PgVectorAdapter_ensureConnected f (a, l) = (Inl PgNotConnected, (a, l))"
  by (simp add: PgVectorAdapter_ensureConnected_def PgVectorAdapter_isConnected_def
      bnd_def the_object_def throw_def)

lemma sqlite_guard:
  "\<not> SqliteAdapter_isConnected a \<Longrightarrow>
   bnd SqliteAdapter_ensureConnected f (a, l) = (Inl SqliteNotConnected, (a, l))"
  by (simp add: SqliteAdapter_ensureConnected_def SqliteAdapter_isConnected_def
      bnd_def the_object_def throw_def)

lemma qdrant_guard:
  "\<not> QdrantAdapter_isConnected a \<Longrightarrow>
   bnd QdrantAdapter_ensureConnected f (a, l) = (Inl QdrantNotConnected, (a, l))"
  by (simp add: QdrantAdapter_ensureConnected_def QdrantAdapter_isConnected_def
      bnd_def the_object_def throw_def)

lemma sqlite_search_guard:
  "\<not> SqliteAdapter_isConnected a \<Longrightarrow>
   SqliteAdapter_searchSimilar env t q lmt m (a, l) = (Inl SqliteNotConnected, (a, l))"
  unfolding SqliteAdapter_searchSimilar_def Let_def
  by (subst bnd_def) (simp add: the_object_def sqlite_guard)

text \<open>
  Claim C6.  Every data operation of the four backend adapters (Redis get, set, delete,
  exists, keys; PgVector createTable, insertVector, searchSimilar, deleteVector, dropTable;
  Sqlite createTable, insertVector, upsertVector, searchSimilar, deleteVector, dropTable;
  Qdrant createCollection, deleteCollection, listCollections, upsert, search), called on an
  adapter that is not connected, fails with the adapter's not-connected error.  The adapter
  and the log of driver calls are unchanged: no driver call is made, so no reconnect is
  attempted.
\<close>

theorem data_operations_need_connection:
  "(\<not> RedisAdapter_isConnected r \<longrightarrow>
      RedisAdapter_get env k (r, l) = (Inl RedisNotConnected, (r, l)) \<and>
      RedisAdapter_set env k v ttl (r, l) = (Inl RedisNotConnected, (r, l)) \<and>
      RedisAdapter_delete env k (r, l) = (Inl RedisNotConnected, (r, l)) \<and>
      RedisAdapter_exists env k (r, l) = (Inl RedisNotConnected, (r, l)) \<and>
      RedisAdapter_keys env k (r, l) = (Inl RedisNotConnected, (r, l))) \<and>
   (\<not> PgVectorAdapter_isConnected p \<longrightarrow>
      PgVectorAdapter_createTable env t d (p, l) = (Inl PgNotConnected, (p, l)) \<and>
      PgVectorAdapter_insertVector env t vec md (p, l) = (Inl PgNotConnected, (p, l)) \<and>
      PgVectorAdapter_searchSimilar env t vec lmt fn (p, l) = (Inl PgNotConnected, (p, l)) \<and>
      PgVectorAdapter_deleteVector env t i (p, l) = (Inl PgNotConnected, (p, l)) \<and>
      PgVectorAdapter_dropTable env t (p, l) = (Inl PgNotConnected, (p, l))) \<and>
   (\<not> SqliteAdapter_isConnected s \<longrightarrow>
      SqliteAdapter_createTable env t (s, l) = (Inl SqliteNotConnected, (s, l)) \<and>
      SqliteAdapter_insertVector env t vec md (s, l) = (Inl SqliteNotConnected, (s, l)) \<and>
      SqliteAdapter_upsertVector env t i vec md (s, l) = (Inl SqliteNotConnected, (s, l)) \<and>
      SqliteAdapter_searchSimilar env t vec lmt mt (s, l) = (Inl SqliteNotConnected, (s, l)) \<and>
      SqliteAdapter_deleteVector env t i (s, l) = (Inl SqliteNotConnected, (s, l)) \<and>
      SqliteAdapter_dropTable env t (s, l) = (Inl SqliteNotConnected, (s, l))) \<and>
   (\<not> QdrantAdapter_isConnected q \<longrightarrow>
      QdrantAdapter_createCollection env t d dst (q, l) = (Inl QdrantNotConnected, (q, l)) \<and>
      QdrantAdapter_deleteCollection env t (q, l) = (Inl QdrantNotConnected, (q, l)) \<and>
      QdrantAdapter_listCollections env (q, l) = (Inl QdrantNotConnected, (q, l)) \<and>
      QdrantAdapter_upsert env t pts w (q, l) = (Inl QdrantNotConnected, (q, l)) \<and>
      QdrantAdapter_search env t vec opts (q, l) = (Inl QdrantNotConnected, (q, l)))"
proof (intro conjI impI)
  assume "\<not> RedisAdapter_isConnected r"
  note g = redis_guard [OF this]
  show "RedisAdapter_get env k (r, l) = (Inl RedisNotConnected, (r, l))"
    unfolding RedisAdapter_get_def by (rule g)
  show "RedisAdapter_set env k v ttl (r, l) = (Inl RedisNotConnected, (r, l))"
    unfolding RedisAdapter_set_def by (rule g)
  show "RedisAdapter_delete env k (r, l) = (Inl RedisNotConnected, (r, l))"
    unfolding RedisAdapter_delete_def by (rule g)
  show "RedisAdapter_exists env k (r, l) = (Inl RedisNotConnected, (r, l))"
    unfolding RedisAdapter_exists_def by (rule g)
  show "RedisAdapter_keys env k (r, l) = (Inl RedisNotConnected, (r, l))"
    unfolding RedisAdapter_keys_def by (rule g)
next
  assume "\<not> PgVectorAdapter_isConnected p"
  note g = pg_guard [OF this]
  show "PgVectorAdapter_createTable env t d (p, l) = (Inl PgNotConnected, (p, l))"
    unfolding PgVectorAdapter_createTable_def by (rule g)
  show "PgVectorAdapter_insertVector env t vec md (p, l) = (Inl PgNotConnected, (p, l))"
    unfolding PgVectorAdapter_insertVector_def by (rule g)
  show "PgVectorAdapter_searchSimilar env t vec lmt fn (p, l) = (Inl PgNotConnected, (p, l))"
    unfolding PgVectorAdapter_searchSimilar_def Let_def by (rule g)
  show "PgVectorAdapter_deleteVector env t i (p, l) = (Inl PgNotConnected, (p, l))"
    unfolding PgVectorAdapter_deleteVector_def by (rule g)
  show "PgVectorAdapter_dropTable env t (p, l) = (Inl PgNotConnected, (p, l))"
    unfolding PgVectorAdapter_dropTable_def by (rule g)
next
  assume n: "\<not> SqliteAdapter_isConnected s"
  note g = sqlite_guard [OF n]
  show "SqliteAdapter_createTable env t (s, l) = (Inl SqliteNotConnected, (s, l))"
    unfolding SqliteAdapter_createTable_def by (rule g)
  show "SqliteAdapter_insertVector env t vec md (s, l) = (Inl SqliteNotConnected, (s, l))"
    unfolding SqliteAdapter_insertVector_def by (rule g)
  show "SqliteAdapter_upsertVector env t i vec md (s, l) = (Inl SqliteNotConnected, (s, l))"
    unfolding SqliteAdapter_upsertVector_def by (rule g)
  show "SqliteAdapter_searchSimilar env t vec lmt mt (s, l) = (Inl SqliteNotConnected, (s, l))"
    by (rule sqlite_search_guard [OF n])
  show "SqliteAdapter_deleteVector env t i (s, l) = (Inl SqliteNotConnected, (s, l))"
    unfolding SqliteAdapter_deleteVector_def by (rule g)
  show "SqliteAdapter_dropTable env t (s, l) = (Inl SqliteNotConnected, (s, l))"
    unfolding SqliteAdapter_dropTable_def by (rule g)
next
  assume "\<not> QdrantAdapter_isConnected q"
  note g = qdrant_guard [OF this]
  show "QdrantAdapter_createCollection env t d dst (q, l) = (Inl QdrantNotConnected, (q, l))"
    unfolding QdrantAdapter_createCollection_def Let_def by (rule g)
  show "QdrantAdapter_deleteCollection env t (q, l) = (Inl QdrantNotConnected, (q, l))"
    unfolding QdrantAdapter_deleteCollection_def by (rule g)
  show "QdrantAdapter_listCollections env (q, l) = (Inl QdrantNotConnected, (q, l))"
    unfolding QdrantAdapter_listCollections_def by (rule g)
  show "QdrantAdapter_upsert env t pts w (q, l) = (Inl QdrantNotConnected, (q, l))"
    unfolding QdrantAdapter_upsert_def Let_def by (rule g)
  show "QdrantAdapter_search env t vec opts (q, l) = (Inl QdrantNotConnected, (q, l))"
    unfolding QdrantAdapter_search_def Let_def by (rule g)
qed

text \<open>An instance: one freshly constructed adapter of each kind.\<close>

theorem data_operations_need_connection_witness:
  "\<not> RedisAdapter_isConnected (RedisAdapter_new example_redis_config) \<and>
   RedisAdapter_get accepting_driver ''key'' (RedisAdapter_new example_redis_config, []) =
     (Inl RedisNotConnected, (RedisAdapter_new example_redis_config, [])) \<and>
   \<not> PgVectorAdapter_isConnected (PgVectorAdapter_new example_pg_config) \<and>
   PgVectorAdapter_insertVector accepting_driver ''items'' [1, 2, 3] None
       (PgVectorAdapter_new example_pg_config, []) =
     (Inl PgNotConnected, (PgVectorAdapter_new example_pg_config, [])) \<and>
   \<not> SqliteAdapter_isConnected (connected_sqlite\<lparr>sq_database := None\<rparr>) \<and>
   SqliteAdapter_searchSimilar accepting_driver ''items'' [1, 2, 3] None None
       (connected_sqlite\<lparr>sq_database := None\<rparr>, []) =
     (Inl SqliteNotConnected, (connected_sqlite\<lparr>sq_database := None\<rparr>, [])) \<and>
   \<not> QdrantAdapter_isConnected (QdrantAdapter_new example_qdrant_config) \<and>
   QdrantAdapter_search accepting_driver ''items'' [1, 2, 3] None
       (QdrantAdapter_new example_qdrant_config, []) =
     (Inl QdrantNotConnected, (QdrantAdapter_new example_qdrant_config, []))"
proof -
  have r: "\<not> RedisAdapter_isConnected (RedisAdapter_new example_redis_config)"
    by (simp add: RedisAdapter_isConnected_def RedisAdapter_new_def)
  have p: "\<not> PgVectorAdapter_isConnected (PgVectorAdapter_new example_pg_config)"
    by (simp add: PgVectorAdapter_isConnected_def PgVectorAdapter_new_def)
  have s: "\<not> SqliteAdapter_isConnected (connected_sqlite\<lparr>sq_database := None\<rparr>)"
    by (simp add: SqliteAdapter_isConnected_def)
  have q: "\<not> QdrantAdapter_isConnected (QdrantAdapter_new example_qdrant_config)"
    by (simp add: QdrantAdapter_isConnected_def QdrantAdapter_new_def)
  from r p s q
    data_operations_need_connection
      [where r = "RedisAdapter_new example_redis_config"
         and p = "PgVectorAdapter_new example_pg_config"
         and s = "connected_sqlite\<lparr>sq_database := None\<rparr>"
         and q = "QdrantAdapter_new example_qdrant_config"
         and env = accepting_driver and l = "[]" and k = "''key''" and t = "''items''"
         and vec = "[1, 2, 3]" and md = None and lmt = None and mt = None and opts = None]
  show ?thesis by blast
qed


section \<open>Inserting a vector of the wrong length\<close>

lemma new_example:
  "SqliteAdapter_new example_sqlite_config = Inr (connected_sqlite\<lparr>sq_database := None\<rparr>)"
  by (simp add: SqliteAdapter_new_def example_sqlite_config_def connected_sqlite_def
      mapDistanceMetric_def)

lemma connect_example:
  "SqliteAdapter_connect accepting_driver (connected_sqlite\<lparr>sq_database := None\<rparr>, []) =
     (Inr (), (connected_sqlite,
        [SqliteOpen '':memory:'', SqliteResolveExtensionPath, SqliteLoadExtension ''vector.so'' None]))"
  by (simp add: SqliteAdapter_connect_def connected_sqlite_def example_sqlite_config_def
      applyPragmas_def loadSqliteVectorExtension_def loadAdditionalExtensions_def prog_defs
      accepting_driver_def)





section \<open>The order of a PgVector search\<close>

lemma sqrt_squares: "sqrt 9 = 3" "sqrt 4 = 2" "sqrt 16 = 4"
  using real_sqrt_abs [of 3] real_sqrt_abs [of 2] real_sqrt_abs [of 4] by simp_all

lemma select_two_rows:
  "select_similar two_rows expr L2_op [1, 0] 10 =
     [\<lparr> pg_id = 2, pg_embedding = [-1, 0], pg_metadata = None,
        pg_distance = selected_distance expr [-1, 0] [1, 0] \<rparr>,
      \<lparr> pg_id = 1, pg_embedding = [4, 0], pg_metadata = None,
        pg_distance = selected_distance expr [4, 0] [1, 0] \<rparr>]"
  by (simp add: select_similar_def two_rows_def pgvector_distance_def sqrt_squares)

lemma search_two_rows:
  "PgVectorAdapter_searchSimilar (pgvector_database two_rows) ''items'' [1, 0] None (Some f)
     (connected_pg, []) =
   (Inr (map pg_result_of_row (select_similar two_rows (distanceExpr f) L2_op [1, 0] 10)),
    (connected_pg,
     [PgPoolConnect,
      PgQuery (PgSearch (escapeIdentifier ''items'') (distanceExpr f) L2_op) [PgVector [1, 0], PgInt 10],
      PgRelease]))"
  by (simp add: PgVectorAdapter_searchSimilar_def PgVectorAdapter_ensureConnected_def
      connected_pg_def pgvector_database_def accepting_driver_def prog_defs)

text \<open>
  Claim C2: for each of the distance functions cosine, L2 and inner product,
  \<open>PgVectorAdapter.searchSimilar\<close> returns its results closest first under the selected
  metric.  The statement the adapter sends always orders by \<^verbatim>\<open>embedding <-> $1::vector\<close>,
  the Euclidean distance; only the expression selected \<^verbatim>\<open>as distance\<close> follows the caller's
  choice.  On the table with the rows \<open>[4, 0]\<close> (id 1) and \<open>[-1, 0]\<close> (id 2), the query
  \<open>[1, 0]\<close> returns id 2 before id 1 for every distance function.  Under the cosine
  distance id 1 is the closer (0 against 2), and under the inner product as well (4 against
  -1): for those two selections the result is not closest first.
\<close>

theorem pg_searchSimilar_orders_by_l2_only:
  "PgVectorAdapter_searchSimilar (pgvector_database two_rows) ''items'' [1, 0] None (Some Cosine)
         (connected_pg, []) =
     (Inr [\<lparr> pr_id = 2, pr_embedding = [-1, 0], pr_metadata = None, pr_distance = -1 \<rparr>,
           \<lparr> pr_id = 1, pr_embedding = [4, 0], pr_metadata = None, pr_distance = 1 \<rparr>],
      (connected_pg,
       [PgPoolConnect,
        PgQuery (PgSearch (escapeIdentifier ''items'') (One_minus Cosine_op) L2_op)
          [PgVector [1, 0], PgInt 10],
        PgRelease])) \<and>
   \<not> closest_first Cosine [1, 0]
       [\<lparr> pr_id = 2, pr_embedding = [-1, 0], pr_metadata = None, pr_distance = -1 \<rparr>,
        \<lparr> pr_id = 1, pr_embedding = [4, 0], pr_metadata = None, pr_distance = 1 \<rparr>] \<and>
   PgVectorAdapter_searchSimilar (pgvector_database two_rows) ''items'' [1, 0] None
         (Some InnerProduct) (connected_pg, []) =
     (Inr [\<lparr> pr_id = 2, pr_embedding = [-1, 0], pr_metadata = None, pr_distance = 1 \<rparr>,
           \<lparr> pr_id = 1, pr_embedding = [4, 0], pr_metadata = None, pr_distance = -4 \<rparr>],
      (connected_pg,
       [PgPoolConnect,
        PgQuery (PgSearch (escapeIdentifier ''items'') (Plain Inner_op) L2_op)
          [PgVector [1, 0], PgInt 10],
        PgRelease])) \<and>
   \<not> closest_first InnerProduct [1, 0]
       [\<lparr> pr_id = 2, pr_embedding = [-1, 0], pr_metadata = None, pr_distance = 1 \<rparr>,
        \<lparr> pr_id = 1, pr_embedding = [4, 0], pr_metadata = None, pr_distance = -4 \<rparr>]"
  by (simp add: search_two_rows select_two_rows pg_result_of_row_def distanceExpr_def
      selected_distance_def pgvector_distance_def dot_product_def closest_first_def
      metric_operator_def sqrt_squares)


text \<open>
  For the L2 selection the order of the statement is the order of the metric: on every
  table, the results are closest first.
\<close>

lemma l2_search_is_closest_first:
  assumes "PgVectorAdapter_searchSimilar (pgvector_database table) t q lmt (Some L2) (a, l)
             = (Inr results, s')"
  shows "closest_first L2 q results"
proof -
  let ?n = "case lmt of Some n \<Rightarrow> n | None \<Rightarrow> 10"
  let ?key = "\<lambda>r. pgvector_distance L2_op (st_embedding r) q"
  from assms have "results = map pg_result_of_row (select_similar table (Plain L2_op) L2_op q ?n)"
    by (auto simp: PgVectorAdapter_searchSimilar_def PgVectorAdapter_ensureConnected_def
        pgvector_database_def accepting_driver_def prog_defs distanceExpr_def Let_def
        split: if_splits option.splits)
  then have "map (\<lambda>r. pgvector_distance L2_op (pr_embedding r) q) results =
             take (nat ?n) (map ?key (sort_key ?key table))"
    by (simp add: select_similar_def pg_result_of_row_def o_def take_map)
  moreover have "sorted (take (nat ?n) (map ?key (sort_key ?key table)))"
    by (intro sorted_wrt_take) simp
  ultimately show ?thesis by (simp add: closest_first_def metric_operator_def)
qed


section \<open>The Sqlite constructor and the metric names\<close>

lemma keeps_object_sqlite_ensureConnected: "keeps_object SqliteAdapter_ensureConnected"
  unfolding SqliteAdapter_ensureConnected_def by (intro keeps_object_intros)

lemma keeps_object_createTable: "keeps_object (SqliteAdapter_createTable env t)"
  unfolding SqliteAdapter_createTable_def
  by (intro keeps_object_intros keeps_object_sqlite_ensureConnected)

lemma keeps_object_applyPragmas: "keeps_object (applyPragmas env)"
  unfolding applyPragmas_def
  by (intro keeps_object_intros) (auto split: option.splits prod.splits intro!: keeps_object_intros)

lemma keeps_object_loadSqliteVectorExtension: "keeps_object (loadSqliteVectorExtension env)"
  unfolding loadSqliteVectorExtension_def by (intro keeps_object_intros)

lemma keeps_object_loadAdditionalExtensions: "keeps_object (loadAdditionalExtensions env)"
  unfolding loadAdditionalExtensions_def
  by (intro keeps_object_intros) (auto split: option.splits intro!: keeps_object_intros)

lemma keeps_object_after_open:
  "keeps_object
     (bnd (applyPragmas env) (\<lambda>_.
      bnd (loadSqliteVectorExtension env) (\<lambda>_.
      bnd (loadAdditionalExtensions env) (\<lambda>_.
      case defaultTable c of
        None \<Rightarrow> ret ()
      | Some t \<Rightarrow> if t = [] then ret () else SqliteAdapter_createTable env t))))"
  by (intro keeps_object_intros keeps_object_applyPragmas keeps_object_loadSqliteVectorExtension
      keeps_object_loadAdditionalExtensions)
     (auto split: option.splits intro!: keeps_object_intros keeps_object_createTable)

text \<open>
  \<open>connect\<close> changes no field but \<open>database\<close>, and when it returns the database is set.
\<close>

lemma sqlite_connect_effect:
  assumes "SqliteAdapter_connect env (a, l) = (r, (a', l'))"
  shows "sq_config a' = sq_config a \<and> (r = Inr () \<longrightarrow> SqliteAdapter_isConnected a')"
proof (cases "sq_database a \<noteq> None")
  case True
  with assms show ?thesis
    by (auto simp: SqliteAdapter_connect_def SqliteAdapter_isConnected_def bnd_def the_object_def ret_def)
next
  case False
  let ?rest = "bnd (applyPragmas env) (\<lambda>_.
      bnd (loadSqliteVectorExtension env) (\<lambda>_.
      bnd (loadAdditionalExtensions env) (\<lambda>_.
      case defaultTable (sq_config a) of
        None \<Rightarrow> ret ()
      | Some t \<Rightarrow> if t = [] then ret () else SqliteAdapter_createTable env t)))"
  let ?l1 = "l @ [SqliteOpen (databasePath (sq_config a))]"
  let ?a1 = "a\<lparr>sq_database := Some (Database (databasePath (sq_config a)))\<rparr>"
  show ?thesis
  proof (cases "reply_void env ?l1")
    case (Some m)
    with False assms show ?thesis
      by (auto simp: SqliteAdapter_connect_def bnd_def the_object_def call_void_def)
  next
    case None
    with False assms have "?rest (?a1, ?l1) = (r, (a', l'))"
      by (simp add: SqliteAdapter_connect_def bnd_def the_object_def call_void_def assign_def)
    from keeps_objectD [OF keeps_object_after_open this] have "a' = ?a1" .
    then show ?thesis by (simp add: SqliteAdapter_isConnected_def)
  qed
qed

lemma new_positive: "SqliteAdapter_new cfg = Inr a \<Longrightarrow> sq_config a = cfg \<and> 0 < vectorDimension cfg"
  unfolding SqliteAdapter_new_def by (auto split: if_splits sum.splits)

text \<open>
  Claim C9.  The \<open>SqliteAdapter\<close> constructor throws for every configuration whose
  \<open>vectorDimension\<close> is at most zero.  Hence every adapter it returns has a positive
  declared dimension, and so has the adapter after \<open>connect\<close>, whatever \<open>connect\<close> returns.
\<close>

theorem sqlite_constructor_positive_dimension:
  "(vectorDimension cfg \<le> 0 \<longrightarrow> SqliteAdapter_new cfg = Inl SqliteDimensionNotPositive) \<and>
   (SqliteAdapter_new cfg = Inr a \<longrightarrow>
      0 < vectorDimension (sq_config a) \<and>
      (SqliteAdapter_connect env (a, l) = (r, (a', l')) \<longrightarrow> 0 < vectorDimension (sq_config a')))"
proof (intro conjI impI)
  assume "vectorDimension cfg \<le> 0"
  then show "SqliteAdapter_new cfg = Inl SqliteDimensionNotPositive"
    by (simp add: SqliteAdapter_new_def)
next
  assume "SqliteAdapter_new cfg = Inr a"
  then show "0 < vectorDimension (sq_config a)" using new_positive by blast
next
  assume n: "SqliteAdapter_new cfg = Inr a"
    and c: "SqliteAdapter_connect env (a, l) = (r, (a', l'))"
  from sqlite_connect_effect [OF c] have "sq_config a' = sq_config a" by simp
  with n new_positive show "0 < vectorDimension (sq_config a')" by metis
qed

text \<open>An instance: the dimension 0 is refused, the dimension 3 is accepted and connects.\<close>

theorem sqlite_constructor_positive_dimension_witness:
  "vectorDimension (example_sqlite_config\<lparr>vectorDimension := 0\<rparr>) \<le> 0 \<and>
   SqliteAdapter_new (example_sqlite_config\<lparr>vectorDimension := 0\<rparr>) = Inl SqliteDimensionNotPositive \<and>
   SqliteAdapter_new example_sqlite_config = Inr (connected_sqlite\<lparr>sq_database := None\<rparr>) \<and>
   SqliteAdapter_connect accepting_driver (connected_sqlite\<lparr>sq_database := None\<rparr>, []) =
     (Inr (), (connected_sqlite,
        [SqliteOpen '':memory:'', SqliteResolveExtensionPath, SqliteLoadExtension ''vector.so'' None])) \<and>
   0 < vectorDimension (sq_config connected_sqlite)"
  using sqlite_constructor_positive_dimension
          [where cfg = "example_sqlite_config\<lparr>vectorDimension := 0\<rparr>"]
    sqlite_constructor_positive_dimension
          [where cfg = example_sqlite_config and a = "connected_sqlite\<lparr>sq_database := None\<rparr>"
             and env = accepting_driver and l = "[]" and r = "Inr ()" and a' = connected_sqlite
             and l' = "[SqliteOpen '':memory:'', SqliteResolveExtensionPath,
                        SqliteLoadExtension ''vector.so'' None]"]
    new_example connect_example
  by (simp add: example_sqlite_config_def)

lemma map_rows_no_mismatch:
  "map_rows (sqlite_result_of_row env a) rows \<noteq> Inl (SqliteMetricMismatch x y)"
  by (induction rows)
     (auto simp: sqlite_result_of_row_def deserializeVector_def split: sum.splits if_splits)

lemma assert_ok_search:
  assumes "assertDistanceMetric a m = Inr ()"
  shows "\<not> is_metric_mismatch (fst (SqliteAdapter_searchSimilar env t q lmt (Some m) (a, l)))"
  using assms map_rows_no_mismatch [of env a]
  by (auto simp: SqliteAdapter_searchSimilar_def SqliteAdapter_ensureConnected_def
      ensureDimension_def wrapVectorFunction_def serializeVector_def prog_defs
      is_metric_mismatch_def split: sum.splits option.splits if_splits error.splits)

text \<open>
  Claim C10.  In \<open>SqliteAdapter\<close> the names \<open>inner_product\<close> and \<open>dot\<close> are one metric: an
  adapter configured with either of them stores \<open>dot\<close>, the metric check accepts both
  names, and \<open>searchSimilar\<close> requesting either name never fails with the metric-mismatch
  error, connected (\<open>db\<close> is \<open>Some\<close>) or not.
\<close>

theorem sqlite_dot_inner_product_same_metric:
  assumes "SqliteAdapter_new cfg = Inr a"
    and "cfg_distanceMetric cfg = Some ''dot'' \<or> cfg_distanceMetric cfg = Some ''inner_product''"
  shows "sq_distanceMetric a = ''dot'' \<and>
         assertDistanceMetric (a\<lparr>sq_database := db\<rparr>) ''inner_product'' = Inr () \<and>
         assertDistanceMetric (a\<lparr>sq_database := db\<rparr>) ''dot'' = Inr () \<and>
         \<not> is_metric_mismatch (fst (SqliteAdapter_searchSimilar env t q lmt (Some ''inner_product'')
                                       (a\<lparr>sq_database := db\<rparr>, l))) \<and>
         \<not> is_metric_mismatch (fst (SqliteAdapter_searchSimilar env t q lmt (Some ''dot'')
                                       (a\<lparr>sq_database := db\<rparr>, l)))"
proof -
  from assms have d: "sq_distanceMetric a = ''dot''"
    by (auto simp: SqliteAdapter_new_def mapDistanceMetric_def split: if_splits)
  then have i: "assertDistanceMetric (a\<lparr>sq_database := db\<rparr>) ''inner_product'' = Inr ()"
    and o: "assertDistanceMetric (a\<lparr>sq_database := db\<rparr>) ''dot'' = Inr ()"
    by (simp_all add: assertDistanceMetric_def mapDistanceMetric_def)
  from d i o assert_ok_search [OF i] assert_ok_search [OF o] show ?thesis by blast
qed

text \<open>An instance: an adapter configured with \<open>dot\<close>, a search requesting \<open>inner_product\<close>.\<close>

theorem sqlite_dot_inner_product_same_metric_witness:
  "SqliteAdapter_new example_sqlite_config = Inr (connected_sqlite\<lparr>sq_database := None\<rparr>) \<and>
   cfg_distanceMetric example_sqlite_config = Some ''dot'' \<and>
   assertDistanceMetric connected_sqlite ''inner_product'' = Inr () \<and>
   \<not> is_metric_mismatch
        (fst (SqliteAdapter_searchSimilar accepting_driver ''items'' [1, 2, 3] None
                (Some ''inner_product'') (connected_sqlite, [])))"
proof -
  have m: "cfg_distanceMetric example_sqlite_config = Some ''dot''"
    by (simp add: example_sqlite_config_def)
  have e: "connected_sqlite\<lparr>sq_database := None, sq_database := Some (Database '':memory:'')\<rparr>
             = connected_sqlite"
    by (simp add: connected_sqlite_def)
  from sqlite_dot_inner_product_same_metric
         [OF new_example disjI1 [OF m], of "Some (Database '':memory:'')" accepting_driver
            "''items''" "[1, 2, 3]" None "[]"] new_example m
  show ?thesis unfolding e by simp
qed


section \<open>The aggregator\<close>

lemma redis_connect_effect:
  "RedisAdapter_connect env (a, l) = (Inr (), (a', l')) \<Longrightarrow> RedisAdapter_isConnected a'"
  by (auto simp: RedisAdapter_connect_def RedisAdapter_isConnected_def client_isOpen_def
      Let_def prog_defs split: if_splits option.splits)

lemma pg_connect_effect:
  "PgVectorAdapter_connect env (a, l) = (Inr (), (a', l')) \<Longrightarrow> PgVectorAdapter_isConnected a'"
  by (auto simp: PgVectorAdapter_connect_def PgVectorAdapter_isConnected_def
      ensurePgVectorExtension_def prog_defs split: if_splits option.splits)

lemma qdrant_connect_effect:
  "QdrantAdapter_connect env (a, l) = (Inr (), (a', l')) \<Longrightarrow> QdrantAdapter_isConnected a'"
  by (auto simp: QdrantAdapter_connect_def QdrantAdapter_isConnected_def
      Let_def prog_defs split: if_splits option.splits sum.splits)

lemma started_ok:
  assumes "started m slot l = (Some (Inr ()), slot', l')"
    and "\<And>a a' l l'. m (a, l) = (Inr (), (a', l')) \<Longrightarrow> up a'"
  shows "\<exists>a. slot' = Some a \<and> up a"
  using assms by (auto simp: started_def split: option.splits prod.splits)

lemma Promise_all_rejects: "Inl e \<in> set (pushed ps) \<Longrightarrow> \<exists>e'. Promise_all ps = Inl e'"
  by (induction ps rule: Promise_all.induct) (auto simp: pushed_def)

lemma connections_example:
  "connections failing_postgres (redis_and_pg, []) =
     ([Some (Inr ()), Some (Inl (DriverError ''ECONNREFUSED'')), None, None],
      (after_failed_connect,
       [RedisConnect (BuiltUrl [] ''localhost'' 6379 None), PgPoolConnect]))"
  by (simp add: connections_def started_def redis_and_pg_def after_failed_connect_def
      connected_redis_def connected_pg_def failing_postgres_def accepting_driver_def
      RedisAdapter_connect_def RedisAdapter_new_def client_isOpen_def buildConnectionUrl_def
      example_redis_config_def PgVectorAdapter_connect_def PgVectorAdapter_new_def
      example_pg_config_def prog_defs Let_def)

text \<open>
  Claim C3.  When the aggregate \<open>connect\<close> fails because the connect of a backend fails
  (\<open>p1\<close>, ..., \<open>p4\<close> are the settled results of the four slots, one of them an error), the
  call reports an error and leaves the adapters as the backend connects left them: there
  is no rollback.  Every backend whose own connect succeeded is connected afterwards, and
  if there is one the aggregator reports \<open>isConnected()\<close>.
\<close>

theorem aggregate_connect_no_rollback:
  assumes "connections env (v, l) = ([p1, p2, p3, p4], (v', l'))"
    and "Inl e \<in> set (pushed [p1, p2, p3, p4])"
  shows "(\<exists>e'. VectorSmithAdapter_connect env (v, l) = (Inl e', (v', l'))) \<and>
         (p1 = Some (Inr ()) \<longrightarrow> (\<exists>a. vs_redis v' = Some a \<and> RedisAdapter_isConnected a)) \<and>
         (p2 = Some (Inr ()) \<longrightarrow> (\<exists>a. vs_pgvector v' = Some a \<and> PgVectorAdapter_isConnected a)) \<and>
         (p3 = Some (Inr ()) \<longrightarrow> (\<exists>a. vs_sqlite v' = Some a \<and> SqliteAdapter_isConnected a)) \<and>
         (p4 = Some (Inr ()) \<longrightarrow> (\<exists>a. vs_qdrant v' = Some a \<and> QdrantAdapter_isConnected a)) \<and>
         (Inr () \<in> set (pushed [p1, p2, p3, p4]) \<longrightarrow> VectorSmithAdapter_isConnected v')"
proof -
  obtain redis' l1 where s1: "started (RedisAdapter_connect env) (vs_redis v) l = (p1, redis', l1)"
    using assms(1) by (auto simp: connections_def split: prod.splits)
  obtain pgvector' l2 where
    s2: "started (PgVectorAdapter_connect env) (vs_pgvector v) l1 = (p2, pgvector', l2)"
    using assms(1) s1 by (auto simp: connections_def split: prod.splits)
  obtain sqlite' l3 where
    s3: "started (SqliteAdapter_connect env) (vs_sqlite v) l2 = (p3, sqlite', l3)"
    using assms(1) s1 s2 by (auto simp: connections_def split: prod.splits)
  obtain qdrant' l4 where
    s4: "started (QdrantAdapter_connect env) (vs_qdrant v) l3 = (p4, qdrant', l4)"
    using assms(1) s1 s2 s3 by (auto simp: connections_def split: prod.splits)
  have v': "v' = v\<lparr>vs_redis := redis', vs_pgvector := pgvector', vs_sqlite := sqlite',
                   vs_qdrant := qdrant'\<rparr>"
    using assms(1) s1 s2 s3 s4 by (simp add: connections_def)
  have r1: "p1 = Some (Inr ()) \<longrightarrow> (\<exists>a. vs_redis v' = Some a \<and> RedisAdapter_isConnected a)"
    using started_ok [of "RedisAdapter_connect env" _ _ _ _ RedisAdapter_isConnected]
      s1 redis_connect_effect v' by fastforce
  have r2: "p2 = Some (Inr ()) \<longrightarrow> (\<exists>a. vs_pgvector v' = Some a \<and> PgVectorAdapter_isConnected a)"
    using started_ok [of "PgVectorAdapter_connect env" _ _ _ _ PgVectorAdapter_isConnected]
      s2 pg_connect_effect v' by fastforce
  have r3: "p3 = Some (Inr ()) \<longrightarrow> (\<exists>a. vs_sqlite v' = Some a \<and> SqliteAdapter_isConnected a)"
    using started_ok [of "SqliteAdapter_connect env" _ _ _ _ SqliteAdapter_isConnected]
      s3 sqlite_connect_effect v' by fastforce
  have r4: "p4 = Some (Inr ()) \<longrightarrow> (\<exists>a. vs_qdrant v' = Some a \<and> QdrantAdapter_isConnected a)"
    using started_ok [of "QdrantAdapter_connect env" _ _ _ _ QdrantAdapter_isConnected]
      s4 qdrant_connect_effect v' by fastforce
  have any: "Inr () \<in> set (pushed [p1, p2, p3, p4]) \<longrightarrow> VectorSmithAdapter_isConnected v'"
  proof
    assume "Inr () \<in> set (pushed [p1, p2, p3, p4])"
    then have "p1 = Some (Inr ()) \<or> p2 = Some (Inr ()) \<or> p3 = Some (Inr ()) \<or> p4 = Some (Inr ())"
      by (auto simp: pushed_def split: option.splits)
    with r1 r2 r3 r4 show "VectorSmithAdapter_isConnected v'"
      unfolding VectorSmithAdapter_isConnected_def Let_def
      by (auto split: option.splits)
  qed
  from assms(2) have ne: "length (pushed [p1, p2, p3, p4]) \<noteq> 0" by auto
  from Promise_all_rejects [OF assms(2)] obtain e' where "Promise_all [p1, p2, p3, p4] = Inl e'" ..
  with assms(1) ne have "VectorSmithAdapter_connect env (v, l) = (Inl e', (v', l'))"
    by (simp add: VectorSmithAdapter_connect_def)
  with r1 r2 r3 r4 any show ?thesis by blast
qed

text \<open>
  An instance: Redis and PgVector configured, the PostgreSQL server refuses the connection.
  The aggregate connect fails and Redis stays connected.
\<close>

theorem aggregate_connect_no_rollback_witness:
  "connections failing_postgres (redis_and_pg, []) =
     ([Some (Inr ()), Some (Inl (DriverError ''ECONNREFUSED'')), None, None],
      (after_failed_connect,
       [RedisConnect (BuiltUrl [] ''localhost'' 6379 None), PgPoolConnect])) \<and>
   Inl (DriverError ''ECONNREFUSED'')
     \<in> set (pushed [Some (Inr ()), Some (Inl (DriverError ''ECONNREFUSED'')), None, None]) \<and>
   (\<exists>e'. VectorSmithAdapter_connect failing_postgres (redis_and_pg, []) =
      (Inl e', (after_failed_connect,
                [RedisConnect (BuiltUrl [] ''localhost'' 6379 None), PgPoolConnect]))) \<and>
   (\<exists>a. vs_redis after_failed_connect = Some a \<and> RedisAdapter_isConnected a) \<and>
   VectorSmithAdapter_isConnected after_failed_connect"
proof -
  have p: "Inl (DriverError ''ECONNREFUSED'')
     \<in> set (pushed [Some (Inr ()), Some (Inl (DriverError ''ECONNREFUSED'')), None, None])"
    by (simp add: pushed_def)
  have q: "Inr () \<in> set (pushed [Some (Inr ()), Some (Inl (DriverError ''ECONNREFUSED'')), None, None])"
    by (simp add: pushed_def)
  from aggregate_connect_no_rollback [OF connections_example p] connections_example p q
  show ?thesis by simp
qed

text \<open>
  Claim C4.  \<open>connect\<close> on an aggregator without any configured backend fails with the
  error "No database adapters configured", and the log of driver calls is unchanged: no
  backend connect is issued.
\<close>

theorem aggregate_connect_no_backends:
  assumes "vs_redis v = None" "vs_pgvector v = None" "vs_sqlite v = None" "vs_qdrant v = None"
  shows "VectorSmithAdapter_connect env (v, l) = (Inl NoAdaptersConfigured, (v, l))"
  using assms
  by (cases v) (simp add: VectorSmithAdapter_connect_def connections_def started_def pushed_def)

text \<open>An instance: the aggregator constructed from the empty configuration.\<close>

theorem aggregate_connect_no_backends_witness:
  "VectorSmithAdapter_new no_backends = Inr empty_aggregator \<and>
   VectorSmithAdapter_connect accepting_driver (empty_aggregator, []) =
     (Inl NoAdaptersConfigured, (empty_aggregator, []))"
  using aggregate_connect_no_backends [of empty_aggregator accepting_driver "[]"]
  by (simp add: VectorSmithAdapter_new_def no_backends_def empty_aggregator_def)

text \<open>
  Claim C5.  The aggregator's \<open>isConnected()\<close> is true exactly when one of the configured
  backend adapters reports connected.  In particular, whatever becomes of one backend slot
  (\<open>r'\<close>, \<open>p'\<close>, \<open>s'\<close>, \<open>q'\<close>: the adapter after its own disconnect, for one), the aggregator
  stays connected as long as another configured backend is connected.
\<close>

theorem aggregate_isConnected_any:
  "(VectorSmithAdapter_isConnected v \<longleftrightarrow>
      (\<exists>a. vs_redis v = Some a \<and> RedisAdapter_isConnected a) \<or>
      (\<exists>a. vs_pgvector v = Some a \<and> PgVectorAdapter_isConnected a) \<or>
      (\<exists>a. vs_sqlite v = Some a \<and> SqliteAdapter_isConnected a) \<or>
      (\<exists>a. vs_qdrant v = Some a \<and> QdrantAdapter_isConnected a)) \<and>
   ((\<exists>a. vs_pgvector v = Some a \<and> PgVectorAdapter_isConnected a) \<or>
    (\<exists>a. vs_sqlite v = Some a \<and> SqliteAdapter_isConnected a) \<or>
    (\<exists>a. vs_qdrant v = Some a \<and> QdrantAdapter_isConnected a) \<longrightarrow>
      VectorSmithAdapter_isConnected (v\<lparr>vs_redis := r'\<rparr>)) \<and>
   ((\<exists>a. vs_redis v = Some a \<and> RedisAdapter_isConnected a) \<or>
    (\<exists>a. vs_sqlite v = Some a \<and> SqliteAdapter_isConnected a) \<or>
    (\<exists>a. vs_qdrant v = Some a \<and> QdrantAdapter_isConnected a) \<longrightarrow>
      VectorSmithAdapter_isConnected (v\<lparr>vs_pgvector := p'\<rparr>)) \<and>
   ((\<exists>a. vs_redis v = Some a \<and> RedisAdapter_isConnected a) \<or>
    (\<exists>a. vs_pgvector v = Some a \<and> PgVectorAdapter_isConnected a) \<or>
    (\<exists>a. vs_qdrant v = Some a \<and> QdrantAdapter_isConnected a) \<longrightarrow>
      VectorSmithAdapter_isConnected (v\<lparr>vs_sqlite := s'\<rparr>)) \<and>
   ((\<exists>a. vs_redis v = Some a \<and> RedisAdapter_isConnected a) \<or>
    (\<exists>a. vs_pgvector v = Some a \<and> PgVectorAdapter_isConnected a) \<or>
    (\<exists>a. vs_sqlite v = Some a \<and> SqliteAdapter_isConnected a) \<longrightarrow>
      VectorSmithAdapter_isConnected (v\<lparr>vs_qdrant := q'\<rparr>))"
  unfolding VectorSmithAdapter_isConnected_def Let_def
  by (auto split: option.splits)

lemma redis_disconnect_example:
  "RedisAdapter_disconnect accepting_driver (connected_redis, []) =
     (Inr (), (RedisAdapter_new example_redis_config, [RedisQuit]))"
  by (simp add: RedisAdapter_disconnect_def connected_redis_def client_isOpen_def
      RedisAdapter_new_def accepting_driver_def prog_defs)

text \<open>
  An instance: Redis and PgVector connected; Redis is disconnected through its adapter and
  the aggregator still reports connected.
\<close>

theorem aggregate_isConnected_any_witness:
  "(\<exists>a. vs_pgvector after_failed_connect = Some a \<and> PgVectorAdapter_isConnected a) \<and>
   RedisAdapter_disconnect accepting_driver (connected_redis, []) =
     (Inr (), (RedisAdapter_new example_redis_config, [RedisQuit])) \<and>
   \<not> RedisAdapter_isConnected (RedisAdapter_new example_redis_config) \<and>
   VectorSmithAdapter_isConnected
     (after_failed_connect\<lparr>vs_redis := Some (RedisAdapter_new example_redis_config)\<rparr>)"
proof -
  have h: "\<exists>a. vs_pgvector after_failed_connect = Some a \<and> PgVectorAdapter_isConnected a"
    by (simp add: after_failed_connect_def connected_pg_def PgVectorAdapter_isConnected_def)
  have n: "\<not> RedisAdapter_isConnected (RedisAdapter_new example_redis_config)"
    by (simp add: RedisAdapter_isConnected_def RedisAdapter_new_def)
  from aggregate_isConnected_any
         [of after_failed_connect "Some (RedisAdapter_new example_redis_config)"] h
  have "VectorSmithAdapter_isConnected
     (after_failed_connect\<lparr>vs_redis := Some (RedisAdapter_new example_redis_config)\<rparr>)"
    by blast
  with h n redis_disconnect_example show ?thesis by blast
qed


section \<open>The embedding providers and their registry\<close>








lemma new_providers:
  assumes "VectorSmithEmbedding_new cfg = Inr e"
  shows "map_of (providers e) Jina \<noteq> None \<longleftrightarrow> cfg_jina cfg \<noteq> None"
    and "map_of (providers e) OpenAI \<noteq> None \<longleftrightarrow> cfg_openai cfg \<noteq> None"
    and "map_of (providers e) t = Some p \<Longrightarrow> provider_type p = t"
  using assms
  by (auto simp: VectorSmithEmbedding_new_def then_do_def provider_type_def
      split: option.splits sum.splits if_splits)

lemma jina_only_new: "VectorSmithEmbedding_new jina_only = Inr jina_registry"
  by (simp add: VectorSmithEmbedding_new_def jina_only_def jina_registry_def then_do_def
      JinaAIEmbeddingProvider_new_def no_options_def)

lemma both_new: "VectorSmithEmbedding_new both_default_openai = Inr both_registry"
  by (simp add: VectorSmithEmbedding_new_def both_default_openai_def both_registry_def then_do_def
      JinaAIEmbeddingProvider_new_def OpenAIEmbeddingProvider_new_def no_options_def)

lemma both_no_default_new:
  "VectorSmithEmbedding_new (both_default_openai\<lparr>cfg_defaultProvider := None\<rparr>) =
     Inr (both_registry\<lparr>defaultProvider := None\<rparr>)"
  by (simp add: VectorSmithEmbedding_new_def both_default_openai_def both_registry_def then_do_def
      JinaAIEmbeddingProvider_new_def OpenAIEmbeddingProvider_new_def no_options_def)

text \<open>
  The constructor succeeds exactly when the provider constructors accept the credentials,
  a provider is configured, and the explicit default, if any, is configured.
\<close>

lemma new_accepts:
  assumes "accepted_credentials cfg" and "configured cfg Jina \<or> configured cfg OpenAI"
    and "\<And>t. cfg_defaultProvider cfg = Some t \<Longrightarrow> configured cfg t"
  shows "\<exists>e. VectorSmithEmbedding_new cfg = Inr e \<and> defaultProvider e = spec_default cfg"
proof (cases "cfg_defaultProvider cfg")
  case None
  with assms(1,2) show ?thesis
    by (auto simp: VectorSmithEmbedding_new_def then_do_def accepted_credentials_def
        configured_def spec_default_def JinaAIEmbeddingProvider_new_def
        OpenAIEmbeddingProvider_new_def split: option.splits)
next
  case (Some t)
  with assms(3) have "configured cfg t" by simp
  with Some assms(1) show ?thesis
    by (cases t)
       (auto simp: VectorSmithEmbedding_new_def then_do_def accepted_credentials_def
        configured_def spec_default_def JinaAIEmbeddingProvider_new_def
        OpenAIEmbeddingProvider_new_def split: option.splits)
qed

lemma new_rejects_default:
  assumes "accepted_credentials cfg" and "configured cfg Jina \<or> configured cfg OpenAI"
    and "cfg_defaultProvider cfg = Some t" and "\<not> configured cfg t"
  shows "VectorSmithEmbedding_new cfg = Inl (DefaultProviderNotConfigured t)"
  using assms
  by (cases t)
     (auto simp: VectorSmithEmbedding_new_def then_do_def accepted_credentials_def
      configured_def JinaAIEmbeddingProvider_new_def OpenAIEmbeddingProvider_new_def
      split: option.splits)

lemma new_rejects_empty:
  assumes "\<not> configured cfg Jina" and "\<not> configured cfg OpenAI"
  shows "VectorSmithEmbedding_new cfg = Inl NoEmbeddingProviderConfigured"
  using assms
  by (auto simp: VectorSmithEmbedding_new_def then_do_def configured_def)

text \<open>
  Claim C8.  When the provider constructors accept the credentials, the constructor of the
  registry accepts a configuration whose explicit default is a configured provider and
  makes it the default, which \<open>getProvider()\<close> then returns; without an explicit default it
  accepts every configuration with a provider and the default is the sole configured
  provider when exactly one exists, else none (\<open>spec_default\<close>).  Construction fails when
  the explicit default is not configured, and when no provider is.  A registry \<open>e\<close> built by
  the constructor holds the configured providers, each of its own type.  For every
  registry \<open>x\<close>, \<open>getProvider\<close> with an explicit type returns the provider stored for that
  type and fails when none is; without a type it does the same for the default and fails
  when there is no default.
\<close>

theorem registry_default_and_getProvider:
  "(accepted_credentials cfg \<and> cfg_defaultProvider cfg = Some t \<and> configured cfg t \<longrightarrow>
      (\<exists>e p. VectorSmithEmbedding_new cfg = Inr e \<and> defaultProvider e = Some t \<and>
              getProvider e None = Inr p \<and> provider_type p = t)) \<and>
   (accepted_credentials cfg \<and> cfg_defaultProvider cfg = None \<and>
    (configured cfg Jina \<or> configured cfg OpenAI) \<longrightarrow>
      (\<exists>e. VectorSmithEmbedding_new cfg = Inr e \<and> defaultProvider e = spec_default cfg)) \<and>
   (accepted_credentials cfg \<and> (configured cfg Jina \<or> configured cfg OpenAI) \<and>
    cfg_defaultProvider cfg = Some t \<and> \<not> configured cfg t \<longrightarrow>
      VectorSmithEmbedding_new cfg = Inl (DefaultProviderNotConfigured t)) \<and>
   (\<not> configured cfg Jina \<and> \<not> configured cfg OpenAI \<longrightarrow>
      VectorSmithEmbedding_new cfg = Inl NoEmbeddingProviderConfigured) \<and>
   (VectorSmithEmbedding_new cfg = Inr e \<longrightarrow>
      defaultProvider e = spec_default cfg \<and>
      (\<forall>t. cfg_defaultProvider cfg = Some t \<longrightarrow> configured cfg t) \<and>
      (\<forall>t. hasProvider e t \<longleftrightarrow> configured cfg t) \<and>
      (\<forall>t p. getProvider e (Some t) = Inr p \<longrightarrow> provider_type p = t)) \<and>
   (cfg_defaultProvider cfg = Some t \<and> \<not> configured cfg t \<longrightarrow>
      (\<exists>err. VectorSmithEmbedding_new cfg = Inl err)) \<and>
   (hasProvider x t \<longrightarrow> (\<exists>p. getProvider x (Some t) = Inr p \<and> map_of (providers x) t = Some p)) \<and>
   (\<not> hasProvider x t \<longrightarrow> getProvider x (Some t) = Inl (ProviderNotConfigured t)) \<and>
   (defaultProvider x = Some t \<longrightarrow> getProvider x None = getProvider x (Some t)) \<and>
   (defaultProvider x = None \<longrightarrow> getProvider x None = Inl NoDefaultProvider)"
proof (intro conjI impI allI)
  assume h: "accepted_credentials cfg \<and> cfg_defaultProvider cfg = Some t \<and> configured cfg t"
  then have c: "configured cfg Jina \<or> configured cfg OpenAI" by (cases t) auto
  from h have "\<And>u. cfg_defaultProvider cfg = Some u \<Longrightarrow> configured cfg u" by simp
  from new_accepts [OF _ c this] h obtain e
    where e: "VectorSmithEmbedding_new cfg = Inr e" "defaultProvider e = spec_default cfg"
    by blast
  from e(2) h have d: "defaultProvider e = Some t" by (simp add: spec_default_def)
  from new_providers(1,2) [OF e(1)] h have "map_of (providers e) t \<noteq> None"
    by (cases t) (simp_all add: configured_def)
  then obtain p where p: "map_of (providers e) t = Some p" by auto
  with new_providers(3) [OF e(1)] have "provider_type p = t" by simp
  moreover from p d have "getProvider e None = Inr p" by (simp add: getProvider_def)
  ultimately show "\<exists>e p. VectorSmithEmbedding_new cfg = Inr e \<and> defaultProvider e = Some t \<and>
              getProvider e None = Inr p \<and> provider_type p = t"
    using e(1) d by blast
next
  assume "accepted_credentials cfg \<and> cfg_defaultProvider cfg = None \<and>
    (configured cfg Jina \<or> configured cfg OpenAI)"
  then show "\<exists>e. VectorSmithEmbedding_new cfg = Inr e \<and> defaultProvider e = spec_default cfg"
    using new_accepts [of cfg] by simp
next
  assume "accepted_credentials cfg \<and> (configured cfg Jina \<or> configured cfg OpenAI) \<and>
    cfg_defaultProvider cfg = Some t \<and> \<not> configured cfg t"
  then show "VectorSmithEmbedding_new cfg = Inl (DefaultProviderNotConfigured t)"
    using new_rejects_default [of cfg t] by blast
next
  assume "\<not> configured cfg Jina \<and> \<not> configured cfg OpenAI"
  then show "VectorSmithEmbedding_new cfg = Inl NoEmbeddingProviderConfigured"
    using new_rejects_empty [of cfg] by blast
next
  assume n: "VectorSmithEmbedding_new cfg = Inr e"
  note np = new_providers [OF n]
  have has: "hasProvider e t \<longleftrightarrow> configured cfg t" for t
    using np(1,2) by (cases t) (simp_all add: hasProvider_def configured_def)
  show "hasProvider e t = configured cfg t" for t by (rule has)
  show "configured cfg t" if "cfg_defaultProvider cfg = Some t" for t
    using n that has [of t]
    by (auto simp: VectorSmithEmbedding_new_def then_do_def hasProvider_def
        split: option.splits sum.splits if_splits)
  show "provider_type p = t" if "getProvider e (Some t) = Inr p" for t p
    using that np(3) [of t p] by (auto simp: getProvider_def split: option.splits)
  show "defaultProvider e = spec_default cfg"
    using n
    by (auto simp: VectorSmithEmbedding_new_def then_do_def spec_default_def configured_def
        split: option.splits sum.splits if_splits)
next
  assume "cfg_defaultProvider cfg = Some t \<and> \<not> configured cfg t"
  then show "\<exists>err. VectorSmithEmbedding_new cfg = Inl err"
    by (cases t)
       (auto simp: VectorSmithEmbedding_new_def then_do_def configured_def
        split: option.splits sum.splits if_splits)
next
  assume "hasProvider x t"
  then show "\<exists>p. getProvider x (Some t) = Inr p \<and> map_of (providers x) t = Some p"
    by (auto simp: hasProvider_def getProvider_def)
next
  assume "\<not> hasProvider x t"
  then show "getProvider x (Some t) = Inl (ProviderNotConfigured t)"
    by (auto simp: hasProvider_def getProvider_def)
next
  assume "defaultProvider x = Some t"
  then show "getProvider x None = getProvider x (Some t)"
    by (simp add: getProvider_def)
next
  assume "defaultProvider x = None"
  then show "getProvider x None = Inl NoDefaultProvider"
    by (simp add: getProvider_def)
qed

text \<open>
  Instances.  With both providers configured and OpenAI named as the default, the
  construction succeeds, OpenAI is the default and \<open>getProvider()\<close> returns the OpenAI
  provider; with both and no explicit default there is no default.  With Jina alone, Jina
  is the default; naming OpenAI as the default then makes the construction fail, and so
  does a configuration without providers.
\<close>

theorem registry_default_and_getProvider_witness:
  "accepted_credentials both_default_openai \<and> configured both_default_openai OpenAI \<and>
   VectorSmithEmbedding_new both_default_openai = Inr both_registry \<and>
   defaultProvider both_registry = Some OpenAI \<and>
   (\<exists>p. getProvider both_registry None = Inr p \<and> provider_type p = OpenAI) \<and>
   VectorSmithEmbedding_new (both_default_openai\<lparr>cfg_defaultProvider := None\<rparr>) =
     Inr (both_registry\<lparr>defaultProvider := None\<rparr>) \<and>
   spec_default (both_default_openai\<lparr>cfg_defaultProvider := None\<rparr>) = None \<and>
   VectorSmithEmbedding_new jina_only = Inr jina_registry \<and>
   defaultProvider jina_registry = spec_default jina_only \<and>
   defaultProvider jina_registry = Some Jina \<and>
   hasProvider jina_registry Jina \<and> \<not> hasProvider jina_registry OpenAI \<and>
   VectorSmithEmbedding_new (jina_only\<lparr>cfg_defaultProvider := Some OpenAI\<rparr>) =
     Inl (DefaultProviderNotConfigured OpenAI) \<and>
   VectorSmithEmbedding_new (jina_only\<lparr>cfg_jina := None\<rparr>) = Inl NoEmbeddingProviderConfigured \<and>
   getProvider jina_registry None = getProvider jina_registry (Some Jina) \<and>
   getProvider jina_registry (Some OpenAI) = Inl (ProviderNotConfigured OpenAI) \<and>
   getProvider (jina_registry\<lparr>defaultProvider := None\<rparr>) None = Inl NoDefaultProvider"
proof -
  have a: "accepted_credentials both_default_openai"
    "configured both_default_openai OpenAI" "configured both_default_openai Jina"
    "cfg_defaultProvider both_default_openai = Some OpenAI"
    by (simp_all add: accepted_credentials_def configured_def both_default_openai_def)
  have a0: "accepted_credentials (both_default_openai\<lparr>cfg_defaultProvider := None\<rparr>)"
    "configured (both_default_openai\<lparr>cfg_defaultProvider := None\<rparr>) Jina"
    "cfg_defaultProvider (both_default_openai\<lparr>cfg_defaultProvider := None\<rparr>) = None"
    "spec_default (both_default_openai\<lparr>cfg_defaultProvider := None\<rparr>) = None"
    by (simp_all add: accepted_credentials_def configured_def both_default_openai_def
        spec_default_def)
  have h: "hasProvider jina_registry Jina" "\<not> hasProvider jina_registry OpenAI"
    by (simp_all add: hasProvider_def jina_registry_def)
  have d: "defaultProvider jina_registry = Some Jina" by (simp add: jina_registry_def)
  have b: "accepted_credentials (jina_only\<lparr>cfg_defaultProvider := Some OpenAI\<rparr>)"
    "configured (jina_only\<lparr>cfg_defaultProvider := Some OpenAI\<rparr>) Jina"
    "cfg_defaultProvider (jina_only\<lparr>cfg_defaultProvider := Some OpenAI\<rparr>) = Some OpenAI"
    "\<not> configured (jina_only\<lparr>cfg_defaultProvider := Some OpenAI\<rparr>) OpenAI"
    by (simp_all add: accepted_credentials_def configured_def jina_only_def)
  have c: "\<not> configured (jina_only\<lparr>cfg_jina := None\<rparr>) Jina"
    "\<not> configured (jina_only\<lparr>cfg_jina := None\<rparr>) OpenAI"
    by (simp_all add: configured_def jina_only_def)
  have 1: "\<exists>e p. VectorSmithEmbedding_new both_default_openai = Inr e \<and>
             defaultProvider e = Some OpenAI \<and> getProvider e None = Inr p \<and>
             provider_type p = OpenAI"
    using registry_default_and_getProvider [where cfg = both_default_openai and t = OpenAI] a
    by blast
  with both_new have 2: "defaultProvider both_registry = Some OpenAI"
    "\<exists>p. getProvider both_registry None = Inr p \<and> provider_type p = OpenAI"
    by auto
  have 3: "\<exists>e. VectorSmithEmbedding_new (both_default_openai\<lparr>cfg_defaultProvider := None\<rparr>) = Inr e \<and>
             defaultProvider e = spec_default (both_default_openai\<lparr>cfg_defaultProvider := None\<rparr>)"
    using registry_default_and_getProvider
            [where cfg = "both_default_openai\<lparr>cfg_defaultProvider := None\<rparr>"] a0
    by blast
  have 4: "defaultProvider jina_registry = spec_default jina_only"
    using registry_default_and_getProvider [where cfg = jina_only and e = jina_registry]
      jina_only_new by blast
  have 5: "VectorSmithEmbedding_new (jina_only\<lparr>cfg_defaultProvider := Some OpenAI\<rparr>) =
             Inl (DefaultProviderNotConfigured OpenAI)"
    using registry_default_and_getProvider
            [where cfg = "jina_only\<lparr>cfg_defaultProvider := Some OpenAI\<rparr>" and t = OpenAI] b
    by blast
  have 6: "VectorSmithEmbedding_new (jina_only\<lparr>cfg_jina := None\<rparr>) = Inl NoEmbeddingProviderConfigured"
    using registry_default_and_getProvider [where cfg = "jina_only\<lparr>cfg_jina := None\<rparr>"] c
    by blast
  have 7: "getProvider jina_registry None = getProvider jina_registry (Some Jina)"
    using registry_default_and_getProvider [where x = jina_registry and t = Jina] d by blast
  have 8: "getProvider jina_registry (Some OpenAI) = Inl (ProviderNotConfigured OpenAI)"
    using registry_default_and_getProvider [where x = jina_registry and t = OpenAI] h(2) by blast
  have 9: "getProvider (jina_registry\<lparr>defaultProvider := None\<rparr>) None = Inl NoDefaultProvider"
    using registry_default_and_getProvider [where x = "jina_registry\<lparr>defaultProvider := None\<rparr>"]
    by simp
  from a a0 both_new both_no_default_new jina_only_new h d 2 3 4 5 6 7 8 9
  show ?thesis by blast
qed

end
